theory Spec2Isabelle
  imports Main "HOL-Library.Multiset"
begin

text \<open>
  A model of the approval workflow of the plant and company code requests: the Express
  handlers over the application database, the storage client that calls them, the
  approval dashboard, the two request forms and the request details dialog. Each
  definition follows one function, handler or SQL statement of the sources and keeps its
  name; the theorems are stated against these definitions.
\<close>

section \<open>JavaScript values and helpers\<close>

text \<open>
  Values that the source reads from JSON bodies or component props may be absent
  (\<open>undefined\<close>/\<open>null\<close>); they are modelled with \<open>option\<close>. Timestamps are
  milliseconds since the epoch (what \<open>new Date(x).getTime()\<close> yields), which is also
  the resolution of the \<open>DATETIME2(3)\<close> columns. A string is the sequence of the bytes
  of its UTF-8 encoding, so a character outside ASCII takes two or three \<open>char\<close>s.
\<close>

type_synonym timestamp = int

text \<open>\<open>!s\<close> for a string that may be missing: \<open>undefined\<close>, \<open>null\<close> and \<open>""\<close> are falsy.\<close>

definition falsy :: "string option \<Rightarrow> bool" where
  "falsy s = (s = None \<or> s = Some [])"

text \<open>\<open>a || b\<close> on strings.\<close>

definition or_else :: "string option \<Rightarrow> string \<Rightarrow> string" where
  "or_else a b = (case a of None \<Rightarrow> b | Some s \<Rightarrow> if s = [] then b else s)"

text \<open>\<open>x || null\<close>: the empty string becomes \<open>null\<close>.\<close>

definition or_null :: "string option \<Rightarrow> string option" where
  "or_null a = (if falsy a then None else a)"

text \<open>
  \<open>String.prototype.toUpperCase\<close> on the ASCII letters. The bytes of a character
  outside ASCII are left as they are, where JavaScript maps some characters to others;
  the one use of the function is the comparison of its result with \<open>"C"\<close>, and the
  strings that JavaScript upper-cases to \<open>"C"\<close> are \<open>"C"\<close> and \<open>"c"\<close>, as here.
\<close>

definition toUpperCase_char :: "char \<Rightarrow> char" where
  "toUpperCase_char c =
     (case map_of (zip ''abcdefghijklmnopqrstuvwxyz'' ''ABCDEFGHIJKLMNOPQRSTUVWXYZ'') c of
        Some u \<Rightarrow> u
      | None \<Rightarrow> c)"

definition toUpperCase :: "string \<Rightarrow> string" where
  "toUpperCase s = map toUpperCase_char s"

text \<open>
  The characters \<open>String.prototype.trim\<close> removes, each in UTF-8: the white space of
  ECMAScript (TAB, VT, FF, SP, NBSP, U+1680, U+2000 to U+200A, U+202F, U+205F, U+3000,
  U+FEFF) and its line terminators (LF, CR, U+2028, U+2029).
\<close>

definition white_space :: "string list" where
  "white_space =
     [[CHR 0x09], [CHR 0x0A], [CHR 0x0B], [CHR 0x0C], [CHR 0x0D], [CHR 0x20],
      [CHR 0xC2, CHR 0xA0],
      [CHR 0xE1, CHR 0x9A, CHR 0x80],
      [CHR 0xE2, CHR 0x80, CHR 0x80], [CHR 0xE2, CHR 0x80, CHR 0x81], [CHR 0xE2, CHR 0x80, CHR 0x82],
      [CHR 0xE2, CHR 0x80, CHR 0x83], [CHR 0xE2, CHR 0x80, CHR 0x84], [CHR 0xE2, CHR 0x80, CHR 0x85],
      [CHR 0xE2, CHR 0x80, CHR 0x86], [CHR 0xE2, CHR 0x80, CHR 0x87], [CHR 0xE2, CHR 0x80, CHR 0x88],
      [CHR 0xE2, CHR 0x80, CHR 0x89], [CHR 0xE2, CHR 0x80, CHR 0x8A],
      [CHR 0xE2, CHR 0x80, CHR 0xA8], [CHR 0xE2, CHR 0x80, CHR 0xA9], [CHR 0xE2, CHR 0x80, CHR 0xAF],
      [CHR 0xE2, CHR 0x81, CHR 0x9F],
      [CHR 0xE3, CHR 0x80, CHR 0x80],
      [CHR 0xEF, CHR 0xBB, CHR 0xBF]]"

text \<open>Removing from the front of \<open>s\<close>, as long as there is one, a leading member of \<open>ws\<close>.\<close>

function strip :: "string list \<Rightarrow> string \<Rightarrow> string" where
  "strip ws s = (case find (\<lambda>w. w \<noteq> [] \<and> take (length w) s = w) ws of
                   None \<Rightarrow> s
                 | Some w \<Rightarrow> strip ws (drop (length w) s))"
  by pat_completeness auto
termination
proof (relation "measure (\<lambda>(ws, s). length s)")
  show "wf (measure (\<lambda>(ws, s). length s))"
    by simp
next
  fix ws :: "string list" and s w :: string
  assume "find (\<lambda>w. w \<noteq> [] \<and> take (length w) s = w) ws = Some w"
  then have w: "w \<noteq> []" and t: "take (length w) s = w"
    by (auto simp: find_Some_iff)
  from t have "length (take (length w) s) = length w"
    by simp
  then have "length w \<le> length s"
    by (simp add: min_def split: if_splits)
  with w show "((ws, drop (length w) s), (ws, s)) \<in> measure (\<lambda>(ws, s). length s)"
    by (cases w) auto
qed

declare strip.simps [simp del]

definition trimStart :: "string \<Rightarrow> string" where
  "trimStart s = strip white_space s"

definition trimEnd :: "string \<Rightarrow> string" where
  "trimEnd s = rev (strip (map rev white_space) (rev s))"

text \<open>\<open>String.prototype.trim\<close>.\<close>

definition trim :: "string \<Rightarrow> string" where
  "trim s = trimEnd (trimStart s)"

text \<open>\<open>s.slice(a, b)\<close> for \<open>0 \<le> a \<le> b\<close>; both ends are clamped to the length.\<close>

definition slice :: "nat \<Rightarrow> nat \<Rightarrow> string \<Rightarrow> string" where
  "slice a b s = take (b - a) (drop a s)"

text \<open>\<open>s.padStart(n, c)\<close> with a one-character filler.\<close>

definition padStart :: "nat \<Rightarrow> char \<Rightarrow> string \<Rightarrow> string" where
  "padStart n c s = replicate (n - length s) c @ s"

definition digit_char :: "nat \<Rightarrow> char" where
  "digit_char d = ''0123456789'' ! (d mod 10)"

fun String_nat :: "nat \<Rightarrow> string" where
  "String_nat n = (if n < 10 then [digit_char n] else String_nat (n div 10) @ [digit_char (n mod 10)])"

declare String_nat.simps [simp del]

text \<open>\<open>String(n)\<close> for an integer.\<close>

definition String_int :: "int \<Rightarrow> string" where
  "String_int i = (if i < 0 then CHR ''-'' # String_nat (nat (- i)) else String_nat (nat i))"

text \<open>Reading a decimal numeral back, used to state what the rendered sequence denotes.\<close>

definition digit_val :: "char \<Rightarrow> nat" where
  "digit_val c = (case map_of (zip ''0123456789'' [0, 1, 2, 3, 4, 5, 6, 7, 8, 9]) c of
                    Some d \<Rightarrow> d | None \<Rightarrow> 0)"

definition is_digit :: "char \<Rightarrow> bool" where
  "is_digit c = (c \<in> set ''0123456789'')"

definition decimal_val :: "string \<Rightarrow> nat" where
  "decimal_val s = foldl (\<lambda>acc c. 10 * acc + digit_val c) 0 s"

text \<open>
  A value parsed from JSON, for the one key of a body that the server converts itself
  (\<open>ncType\<close>). A number is an integer here; one with a fraction or an exponent prints
  with digits, a sign, a point and \<open>e\<close> and takes the same branches.
\<close>

datatype json =
  JNull | JBool bool | JNum int | JStr string | JArr "json list" | JObj "(string \<times> json) list"

text \<open>\<open>Array.prototype.join\<close> with the default separator.\<close>

fun join :: "string list \<Rightarrow> string" where
  "join [] = []"
| "join [x] = x"
| "join (x # y # ys) = x @ '','' @ join (y # ys)"

text \<open>
  \<open>String(v)\<close>: an array prints its elements joined by commas, \<open>null\<close> among them as
  the empty string; an object prints as \<open>[object Object]\<close>, unless it has a
  \<open>toString\<close> entry of its own: the entry hides \<open>Object.prototype.toString\<close> and,
  being a JSON value, cannot be called, so the conversion throws a \<open>TypeError\<close>, which is
  \<open>None\<close> here. An array that holds a value whose conversion throws throws as well.
\<close>

fun String_json :: "json \<Rightarrow> string option" where
  "String_json JNull = Some ''null''"
| "String_json (JBool b) = Some (if b then ''true'' else ''false'')"
| "String_json (JNum n) = Some (String_int n)"
| "String_json (JStr s) = Some s"
| "String_json (JArr xs) =
     map_option join (those (map (\<lambda>x. if x = JNull then Some [] else String_json x) xs))"
| "String_json (JObj kvs) =
     (if ''toString'' \<in> set (map fst kvs) then None else Some ''[object Object]'')"

text \<open>The values whose conversion throws.\<close>

fun String_throws :: "json \<Rightarrow> bool" where
  "String_throws (JObj kvs) = (''toString'' \<in> set (map fst kvs))"
| "String_throws (JArr xs) = (\<exists>x\<in>set xs. String_throws x)"
| "String_throws v = False"

text \<open>The values that are not falsy.\<close>

fun truthy :: "json \<Rightarrow> bool" where
  "truthy JNull = False"
| "truthy (JBool b) = b"
| "truthy (JNum n) = (n \<noteq> 0)"
| "truthy (JStr s) = (s \<noteq> [])"
| "truthy (JArr xs) = True"
| "truthy (JObj kvs) = True"

section \<open>HTTP replies and store errors\<close>

text \<open>
  \<open>fail(res, status, message)\<close> of the server; \<open>ok(res, data)\<close> is the \<open>Inr\<close> side of
  the result. The storage client's \<open>http\<close> throws on every reply that is not ok, so the
  same value models the exception seen by the client.
\<close>

datatype fail = Fail nat string

section \<open>Request-ID allocator\<close>

text \<open>
  Table \<open>RequestIdCounters(prefix, yyyymmdd, lastSeq)\<close> with primary key
  \<open>(prefix, yyyymmdd)\<close>: a finite map from the key to \<open>lastSeq\<close>.
\<close>

type_synonym counters = "char \<times> string \<rightharpoonup> int"

text \<open>
  The \<open>MERGE ... WITH (HOLDLOCK)\<close> statement: one atomic increment-or-insert that
  outputs the new \<open>lastSeq\<close>. The column is a 32-bit \<open>INT\<close>; the increment of
  its largest value is an arithmetic-overflow error of the store.
\<close>

definition merge_counter :: "char \<Rightarrow> string \<Rightarrow> counters \<Rightarrow> (int \<times> counters) option" where
  "merge_counter p d t =
     (case t (p, d) of
        None \<Rightarrow> Some (1, t((p, d) \<mapsto> 1))
      | Some n \<Rightarrow> if n = 2147483647 then None else Some (n + 1, t((p, d) \<mapsto> n + 1)))"

text \<open>
  \<open>String(ncType || "N").toUpperCase() === "C" ? "C" : "N"\<close>, with the default
  \<open>ncType = "N"\<close> of the parameter for a missing key; \<open>None\<close> when \<open>String\<close> throws.
\<close>

definition ncType_prefix :: "json option \<Rightarrow> char option" where
  "ncType_prefix ncType =
     map_option (\<lambda>s. if toUpperCase s = ''C'' then CHR ''C'' else CHR ''N'')
       (String_json (case ncType of
                       None \<Rightarrow> JStr ''N''
                     | Some v \<Rightarrow> if truthy v then v else JStr ''N''))"

text \<open>
  The values whose upper-cased print is \<open>C\<close>: the strings \<open>C\<close> and \<open>c\<close>, and an
  array that holds one such value and nothing else.
\<close>

fun names_C :: "json \<Rightarrow> bool" where
  "names_C (JStr s) = (s = ''C'' \<or> s = ''c'')"
| "names_C (JArr [x]) = names_C x"
| "names_C v = False"

text \<open>
  \<open>generateRequestId(ncType)\<close>; \<open>today\<close> is the server's
  \<open>CONVERT(CHAR(8), GETDATE(), 112)\<close>, that is \<open>yyyymmdd\<close>. \<open>None\<close> is the error
  thrown, by the conversion of \<open>ncType\<close> or by the store.
\<close>

definition generateRequestId :: "json option \<Rightarrow> string \<Rightarrow> counters \<Rightarrow> (string \<times> counters) option" where
  "generateRequestId ncType today t =
     (case ncType_prefix ncType of
        None \<Rightarrow> None
      | Some prefix \<Rightarrow>
          (case merge_counter prefix today t of
             None \<Rightarrow> None
           | Some (nextSeq, t') \<Rightarrow>
               let yyyymmdd = today;
                   ddmmyyyy = slice 6 8 yyyymmdd @ slice 4 6 yyyymmdd @ slice 0 4 yyyymmdd;
                   seq = padStart 3 (CHR ''0'') (String_int nextSeq)
               in Some (prefix # ''_'' @ ddmmyyyy @ ''_'' @ seq, t')))"


section \<open>Data model\<close>

datatype req_type = Plant | Company

datatype status =
  Draft | Pending_secretary | Pending_siva | Pending_raghu | Pending_manoj
  | Approved | Rejected | Sap_updated | Completed

datatype role = Requestor | It | Secretary | Siva | Raghu | Manoj | Admin

datatype decision = Approve | Reject

datatype action = Act_create | Act_edit | Act_approve | Act_reject | Act_update_sap

text \<open>Rows of the tables created by the schema bootstrap (\<open>DDL\<close>).\<close>

record request_row =
  r_requestId :: string
  r_type :: req_type
  r_title :: string
  r_status :: status
  r_createdBy :: string
  r_createdAt :: timestamp
  r_updatedAt :: timestamp

text \<open>
  A versioned details row: the key columns and the value columns of the table with their
  contents (\<open>None\<close> is SQL \<open>NULL\<close>).
\<close>

record details_row =
  d_requestId :: string
  d_version :: int
  d_cols :: "(string \<times> string option) list"

record approval_row =
  a_requestId :: string
  a_approverEmail :: string
  a_role :: role
  a_decision :: decision
  a_comment :: "string option"
  a_attachmentId :: "string option"
  a_timestamp :: timestamp

record history_row =
  h_requestId :: string
  h_timestamp :: timestamp
  h_action :: action
  h_user :: string
  h_metadata :: "(string \<times> string) list option"

text \<open>
  The state of the server: the tables of the application database and the lines written
  with \<open>console.error\<close>. The schema bootstrap creates a table only when it does not
  exist, so the value columns that \<open>PlantCodeDetails\<close> has are part of the state.
\<close>

record server =
  Requests :: "request_row list"
  PlantCodeDetails_columns :: "string list"
  PlantCodeDetails :: "details_row list"
  Approvals :: "approval_row list"
  HistoryLogs :: "history_row list"
  RequestIdCounters :: counters
  console :: "string list"

text \<open>
  What a call depends on besides the stored state: the server clock
  (\<open>SYSUTCDATETIME()\<close>, \<open>new Date()\<close>), the server's local day as \<open>yyyymmdd\<close>,
  the client clock (\<open>toISO()\<close>), and whether the mail functions
  (\<open>sendStageEmail\<close>, \<open>sendConfirmationEmail\<close>) throw.
\<close>

record env =
  now :: timestamp
  today :: string
  client_now :: timestamp
  mail_throws :: bool

text \<open>JSON bodies of the mutating endpoints; a missing or \<open>null\<close> key is \<open>None\<close>.\<close>

record request_body =
  rb_requestId :: "string option"
  rb_type :: "req_type option"
  rb_title :: "string option"
  rb_status :: "status option"
  rb_createdBy :: "string option"
  rb_createdAt :: "timestamp option"
  rb_updatedAt :: "timestamp option"
  rb_ncType :: "json option"

text \<open>
  Body of the details endpoints: \<open>requestId\<close>, \<open>version\<close> and the remaining
  entries of the object, in the order of \<open>Object.entries\<close>. An entry \<open>(k, None)\<close>
  is a key present with value \<open>null\<close>.
\<close>

record details_body =
  db_requestId :: "string option"
  db_version :: "int option"
  db_entries :: "(string \<times> string option) list"

record approval_body =
  ab_requestId :: "string option"
  ab_approverEmail :: "string option"
  ab_role :: "role option"
  ab_decision :: "decision option"
  ab_comment :: "string option"
  ab_attachmentId :: "string option"
  ab_timestamp :: "timestamp option"

record history_body =
  hb_requestId :: "string option"
  hb_action :: "action option"
  hb_user :: "string option"
  hb_timestamp :: "timestamp option"
  hb_metadata :: "(string \<times> string) list option"

section \<open>Server endpoints\<close>

text \<open>
  Each handler is a function from the server state to the reply: \<open>Inl (Fail status
  message)\<close> for \<open>fail(res, status, message)\<close>, with the state unchanged, and \<open>Inr\<close>
  with the new state for \<open>ok(res, data)\<close>. A statement that violates a constraint of the
  schema throws, and the handler's \<open>catch\<close> answers 500. Of the schema the model keeps
  the keys the statements rely on: the primary keys of \<open>Requests\<close>, \<open>Approvals\<close>,
  \<open>HistoryLogs\<close> and \<open>RequestIdCounters\<close>, and the foreign keys to \<open>Requests\<close>. The
  \<open>CHECK\<close> constraints on type, status and decision hold by the types of the
  model. Strings are compared as they are (no collation) and column widths are not
  modelled. A statement that names a column its table does not have throws as well.
\<close>

text \<open>\<open>ISNULL(@p, SYSUTCDATETIME())\<close>.\<close>

definition ISNULL :: "timestamp option \<Rightarrow> timestamp \<Rightarrow> timestamp" where
  "ISNULL p d = (case p of None \<Rightarrow> d | Some t \<Rightarrow> t)"

text \<open>
  \<open>try { await sendStageEmail(...) } catch (e) { console.error(msg, e) }\<close>: the mail
  functions only read the store; a failure is logged and swallowed.
\<close>

definition try_mail :: "env \<Rightarrow> string \<Rightarrow> server \<Rightarrow> server" where
  "try_mail e msg s = (if mail_throws e then s\<lparr>console := console s @ [msg]\<rparr> else s)"

definition request_exists :: "string \<Rightarrow> server \<Rightarrow> bool" where
  "request_exists rid s = (rid \<in> set (map r_requestId (Requests s)))"

subsection \<open>\<open>POST /api/requests\<close>\<close>

text \<open>The \<open>IF EXISTS ... UPDATE ... ELSE INSERT\<close> statement on \<open>Requests\<close>.\<close>

definition upsert_request ::
  "timestamp \<Rightarrow> string \<Rightarrow> req_type \<Rightarrow> string \<Rightarrow> status \<Rightarrow> string \<Rightarrow> timestamp option \<Rightarrow>
   timestamp option \<Rightarrow> request_row list \<Rightarrow> request_row list" where
  "upsert_request t rid ty ti st cb ca ua rows =
     (if rid \<in> set (map r_requestId rows)
      then map (\<lambda>r. if r_requestId r = rid
                      then r\<lparr>r_type := ty, r_title := ti, r_status := st, r_createdBy := cb,
                             r_updatedAt := ISNULL ua t\<rparr>
                      else r) rows
      else rows @ [\<lparr>r_requestId = rid, r_type = ty, r_title = ti, r_status = st,
                     r_createdBy = cb, r_createdAt = ISNULL ca t, r_updatedAt = ISNULL ua t\<rparr>])"

text \<open>\<open>SELECT TOP 1 status FROM dbo.Requests WHERE requestId=@rid\<close>.\<close>

definition select_status :: "string \<Rightarrow> request_row list \<Rightarrow> status option" where
  "select_status rid rows = map_option r_status (find (\<lambda>r. r_requestId r = rid) rows)"

definition post_requests :: "env \<Rightarrow> request_body \<Rightarrow> server \<Rightarrow> fail + (string \<times> server)" where
  "post_requests e b s =
     (case (rb_type b, rb_status b) of
        (Some ty, Some st) \<Rightarrow>
          if falsy (rb_title b) \<or> falsy (rb_createdBy b)
          then Inl (Fail 400 ''type, title, status, createdBy are required'')
          else
            (case (if falsy (rb_requestId b)
                   then generateRequestId (rb_ncType b) (today e) (RequestIdCounters s)
                   else Some (or_else (rb_requestId b) [], RequestIdCounters s)) of
               None \<Rightarrow> Inl (Fail 500 ''Failed to save request'')
             | Some (requestId, t') \<Rightarrow>
                 let s1 = s\<lparr>RequestIdCounters := t'\<rparr>;
                     prevStatus = select_status requestId (Requests s1);
                     s2 = s1\<lparr>Requests :=
                            upsert_request (now e) requestId ty (or_else (rb_title b) []) st
                              (or_else (rb_createdBy b) []) (rb_createdAt b) (rb_updatedAt b)
                              (Requests s1)\<rparr>;
                     s3 = (if prevStatus \<noteq> Some st
                           then try_mail e ''sendStageEmail (create) failed:'' s2 else s2)
                 in Inr (requestId, s3))
      | _ \<Rightarrow> Inl (Fail 400 ''type, title, status, createdBy are required''))"

subsection \<open>\<open>PATCH /api/requests/:id/status\<close>\<close>

definition patch_status :: "env \<Rightarrow> string \<Rightarrow> status option \<Rightarrow> server \<Rightarrow> fail + server" where
  "patch_status e rid body_status s =
     (case body_status of
        None \<Rightarrow> Inl (Fail 400 ''status is required'')
      | Some st \<Rightarrow>
          let s1 = s\<lparr>Requests :=
                     map (\<lambda>r. if r_requestId r = rid
                               then r\<lparr>r_status := st, r_updatedAt := now e\<rparr> else r)
                       (Requests s)\<rparr>
          in Inr (try_mail e ''sendStageEmail failed:'' s1))"

subsection \<open>\<open>POST /api/plant-details\<close>\<close>

text \<open>
  The value columns of \<open>PlantCodeDetails\<close> as the schema bootstrap (\<open>DDL\<close>) creates the
  table, in both server files.
\<close>

definition DDL_plant_columns :: "string list" where
  "DDL_plant_columns =
     [''companyCode'', ''gstCertificate'', ''plantCode'', ''nameOfPlant'',
      ''addressOfPlant'', ''purchaseOrganization'', ''nameOfPurchaseOrganization'',
      ''salesOrganization'', ''nameOfSalesOrganization'', ''profitCenter'',
      ''nameOfProfitCenter'', ''costCenters'', ''nameOfCostCenters'', ''projectCode'',
      ''projectCodeDescription'', ''storageLocationCode'', ''storageLocationDescription'']"

text \<open>
  The value columns named by the statement of the handler, each bound to the parameter
  of its name: with \<open>gstNumber\<close> in the server with the confirmation mail, and without
  it in \<open>server/server.cjs\<close>.
\<close>

definition plant_columns :: "string list" where
  "plant_columns =
     [''companyCode'', ''gstNumber'', ''gstCertificate'', ''plantCode'', ''nameOfPlant'',
      ''addressOfPlant'', ''purchaseOrganization'', ''nameOfPurchaseOrganization'',
      ''salesOrganization'', ''nameOfSalesOrganization'', ''profitCenter'',
      ''nameOfProfitCenter'', ''costCenters'', ''nameOfCostCenters'', ''projectCode'',
      ''projectCodeDescription'', ''storageLocationCode'', ''storageLocationDescription'']"

definition server_cjs_plant_columns :: "string list" where
  "server_cjs_plant_columns =
     [''companyCode'', ''gstCertificate'', ''plantCode'', ''nameOfPlant'',
      ''addressOfPlant'', ''purchaseOrganization'', ''nameOfPurchaseOrganization'',
      ''salesOrganization'', ''nameOfSalesOrganization'', ''profitCenter'',
      ''nameOfProfitCenter'', ''costCenters'', ''nameOfCostCenters'', ''projectCode'',
      ''projectCodeDescription'', ''storageLocationCode'', ''storageLocationDescription'']"

text \<open>\<open>d[k] == null || d[k] === ""\<close> for an entry of the body.\<close>

definition entry_missing :: "(string \<times> string option) list \<Rightarrow> string \<Rightarrow> bool" where
  "entry_missing es k = (case map_of es k of None \<Rightarrow> True | Some None \<Rightarrow> True | Some (Some v) \<Rightarrow> v = [])"

text \<open>
  The loop over \<open>Object.entries(d)\<close> binds one input per entry whose key is a known
  column; the value bound to a column is \<open>v ?? null\<close>.
\<close>

definition bound_value :: "(string \<times> string option) list \<Rightarrow> string \<Rightarrow> string option" where
  "bound_value es k = (case map_of es k of None \<Rightarrow> None | Some v \<Rightarrow> v)"

definition all_bound :: "string list \<Rightarrow> (string \<times> string option) list \<Rightarrow> bool" where
  "all_bound cols es = (set cols \<subseteq> set (map fst es))"

definition has_version :: "string \<Rightarrow> int \<Rightarrow> details_row list \<Rightarrow> bool" where
  "has_version rid v rows = ((rid, v) \<in> set (map (\<lambda>r. (d_requestId r, d_version r)) rows))"

text \<open>
  The value a column of a row has after the statement: the parameter bound to its name
  when the statement names the column, and the value it had before otherwise.
\<close>

definition written ::
  "string list \<Rightarrow> (string \<times> string option) list \<Rightarrow> string \<Rightarrow> string option \<Rightarrow> string option" where
  "written columns es k old = (if k \<in> set columns then bound_value es k else old)"

text \<open>
  The \<open>IF EXISTS ... UPDATE ... ELSE INSERT\<close> statement on \<open>PlantCodeDetails\<close>, for
  the columns \<open>columns\<close> it names and the entries \<open>es\<close> of the body. The \<open>UPDATE\<close> sets
  the named columns of the row with the key; the \<open>INSERT\<close> adds a row, where a column
  of the table that the statement does not name is \<open>NULL\<close>.
\<close>

definition upsert_details ::
  "string list \<Rightarrow> (string \<times> string option) list \<Rightarrow> string list \<Rightarrow> string \<Rightarrow> int \<Rightarrow>
   details_row list \<Rightarrow> details_row list" where
  "upsert_details columns es table_columns rid v rows =
     (if has_version rid v rows
      then map (\<lambda>r. if d_requestId r = rid \<and> d_version r = v
                    then r\<lparr>d_cols := map (\<lambda>(k, old). (k, written columns es k old)) (d_cols r)\<rparr>
                    else r) rows
      else rows @ [\<lparr>d_requestId = rid, d_version = v,
                    d_cols = map (\<lambda>k. (k, written columns es k None)) table_columns\<rparr>])"

text \<open>
  The part the two handlers of \<open>POST /api/plant-details\<close> share, for the columns
  \<open>columns\<close> their statement names. A parameter of the statement that no input was
  bound to, a column of the statement that the table does not have, and an insert whose
  \<open>requestId\<close> has no row in \<open>Requests\<close> (\<open>FK_Plant_Request\<close>), make the query throw;
  the handler answers 500.
\<close>

definition plant_details_upsert :: "string list \<Rightarrow> details_body \<Rightarrow> server \<Rightarrow> fail + server" where
  "plant_details_upsert columns d s =
     (if falsy (db_requestId d) then Inl (Fail 400 ''requestId is required'')
      else case db_version d of
        None \<Rightarrow> Inl (Fail 400 ''version is required'')
      | Some v \<Rightarrow>
          if entry_missing (db_entries d) ''companyCode'' then Inl (Fail 400 ''companyCode is required'')
          else if entry_missing (db_entries d) ''plantCode'' then Inl (Fail 400 ''plantCode is required'')
          else if entry_missing (db_entries d) ''nameOfPlant'' then Inl (Fail 400 ''nameOfPlant is required'')
          else
            let rid = or_else (db_requestId d) []
            in if \<not> all_bound columns (db_entries d) then Inl (Fail 500 ''Failed to save plant details'')
               else if \<not> set columns \<subseteq> set (PlantCodeDetails_columns s)
               then Inl (Fail 500 ''Failed to save plant details'')
               else if \<not> has_version rid v (PlantCodeDetails s) \<and> \<not> request_exists rid s
               then Inl (Fail 500 ''Failed to save plant details'')
               else Inr (s\<lparr>PlantCodeDetails :=
                            upsert_details columns (db_entries d) (PlantCodeDetails_columns s) rid v
                              (PlantCodeDetails s)\<rparr>))"

text \<open>
  The handler with the confirmation mail: after the statement it sends the mail, whose
  failure is caught.
\<close>

definition post_plant_details :: "env \<Rightarrow> details_body \<Rightarrow> server \<Rightarrow> fail + server" where
  "post_plant_details e d s =
     map_sum id (try_mail e ''sendConfirmationEmail (plant) failed:'')
       (plant_details_upsert plant_columns d s)"


subsection \<open>\<open>POST /api/approvals\<close>\<close>

definition has_approval :: "string \<Rightarrow> string \<Rightarrow> approval_row list \<Rightarrow> bool" where
  "has_approval rid em rows = ((rid, em) \<in> set (map (\<lambda>r. (a_requestId r, a_approverEmail r)) rows))"

text \<open>The primary key of \<open>Approvals\<close> (\<open>PK_Approvals\<close>).\<close>

definition approval_key :: "approval_row \<Rightarrow> string \<times> string" where
  "approval_key r = (a_requestId r, a_approverEmail r)"

text \<open>The \<open>IF NOT EXISTS ... INSERT ... ELSE UPDATE\<close> statement on \<open>Approvals\<close>.\<close>

definition upsert_approval :: "approval_row \<Rightarrow> approval_row list \<Rightarrow> approval_row list" where
  "upsert_approval new rows =
     (if \<not> has_approval (a_requestId new) (a_approverEmail new) rows
      then rows @ [new]
      else map (\<lambda>r. if a_requestId r = a_requestId new \<and> a_approverEmail r = a_approverEmail new
                      then r\<lparr>a_role := a_role new, a_decision := a_decision new,
                             a_comment := a_comment new, a_attachmentId := a_attachmentId new,
                             a_timestamp := a_timestamp new\<rparr>
                      else r) rows)"

definition post_approvals :: "env \<Rightarrow> approval_body \<Rightarrow> server \<Rightarrow> fail + server" where
  "post_approvals e b s =
     (case (ab_role b, ab_decision b) of
        (Some ro, Some de) \<Rightarrow>
          if falsy (ab_requestId b) \<or> falsy (ab_approverEmail b)
          then Inl (Fail 400 ''requestId, approverEmail, role, decision are required'')
          else
            let new = \<lparr>a_requestId = or_else (ab_requestId b) [],
                       a_approverEmail = or_else (ab_approverEmail b) [],
                       a_role = ro, a_decision = de,
                       a_comment = or_null (ab_comment b),
                       a_attachmentId = or_null (ab_attachmentId b),
                       a_timestamp = ISNULL (ab_timestamp b) (now e)\<rparr>
            in if \<not> has_approval (a_requestId new) (a_approverEmail new) (Approvals s)
                  \<and> \<not> request_exists (a_requestId new) s
               then Inl (Fail 500 ''Failed to save approval'')
               else Inr (s\<lparr>Approvals := upsert_approval new (Approvals s)\<rparr>)
      | _ \<Rightarrow> Inl (Fail 400 ''requestId, approverEmail, role, decision are required''))"

subsection \<open>\<open>POST /api/history\<close>\<close>

definition has_history :: "string \<Rightarrow> timestamp \<Rightarrow> history_row list \<Rightarrow> bool" where
  "has_history rid t rows = ((rid, t) \<in> set (map (\<lambda>r. (h_requestId r, h_timestamp r)) rows))"

text \<open>
  A plain \<open>INSERT\<close>. It throws when the key \<open>(requestId, timestamp)\<close> is already
  present (\<open>PK_History\<close>) and when \<open>requestId\<close> has no row in \<open>Requests\<close>
  (\<open>FK_History_Request\<close>); the handler answers 500.
\<close>

definition post_history :: "env \<Rightarrow> history_body \<Rightarrow> server \<Rightarrow> fail + server" where
  "post_history e b s =
     (case hb_action b of
        None \<Rightarrow> Inl (Fail 400 ''requestId, action, user are required'')
      | Some ac \<Rightarrow>
          if falsy (hb_requestId b) \<or> falsy (hb_user b)
          then Inl (Fail 400 ''requestId, action, user are required'')
          else
            let new = \<lparr>h_requestId = or_else (hb_requestId b) [],
                       h_timestamp = ISNULL (hb_timestamp b) (now e),
                       h_action = ac,
                       h_user = or_else (hb_user b) [],
                       h_metadata = hb_metadata b\<rparr>
            in if has_history (h_requestId new) (h_timestamp new) (HistoryLogs s)
                  \<or> \<not> request_exists (h_requestId new) s
               then Inl (Fail 500 ''Failed to save history log'')
               else Inr (s\<lparr>HistoryLogs := HistoryLogs s @ [new]\<rparr>))"


subsection \<open>Sequences of calls\<close>

text \<open>
  A call to one of the mutating endpoints above, and the state it leaves: the new state
  when it is answered ok, the same state when it fails.
\<close>

datatype call =
  Post_requests env request_body
  | Patch_status env string "status option"
  | Post_plant_details env details_body
  | Post_approvals env approval_body
  | Post_history env history_body

definition after :: "fail + server \<Rightarrow> server \<Rightarrow> server" where
  "after reply s = (case reply of Inl f \<Rightarrow> s | Inr s' \<Rightarrow> s')"

fun apply_call :: "call \<Rightarrow> server \<Rightarrow> server" where
  "apply_call (Post_requests e b) s = after (map_sum id snd (post_requests e b s)) s"
| "apply_call (Patch_status e rid st) s = after (patch_status e rid st s) s"
| "apply_call (Post_plant_details e d) s = after (post_plant_details e d s) s"
| "apply_call (Post_approvals e b) s = after (post_approvals e b s) s"
| "apply_call (Post_history e b) s = after (post_history e b s) s"

fun run :: "call list \<Rightarrow> server \<Rightarrow> server" where
  "run [] s = s"
| "run (c # cs) s = run cs (apply_call c s)"

section \<open>Storage client (\<open>lib/storage.ts\<close>)\<close>

text \<open>
  \<open>http\<close> throws an \<open>Error\<close> for every reply that is not ok. A client call is a
  function from the server state to the thrown error or unit, with the state the
  server is left in.
\<close>

definition http :: "(server \<Rightarrow> fail + server) \<Rightarrow> server \<Rightarrow> (fail + unit) \<times> server" where
  "http endpoint s = (case endpoint s of Inl f \<Rightarrow> (Inl f, s) | Inr s' \<Rightarrow> (Inr (), s'))"

text \<open>
  \<open>saveRequest\<close> posts the seven fields it names (any other key of its argument,
  such as \<open>ncType\<close>, is not sent) and returns nothing.
\<close>

definition saveRequest :: "env \<Rightarrow> request_body \<Rightarrow> server \<Rightarrow> (fail + unit) \<times> server" where
  "saveRequest e request s =
     http (\<lambda>s. map_sum id snd
             (post_requests e
                \<lparr>rb_requestId = rb_requestId request, rb_type = rb_type request,
                 rb_title = rb_title request, rb_status = rb_status request,
                 rb_createdBy = rb_createdBy request,
                 rb_createdAt = Some (ISNULL (rb_createdAt request) (client_now e)),
                 rb_updatedAt = Some (ISNULL (rb_updatedAt request) (client_now e)),
                 rb_ncType = None\<rparr> s)) s"

definition updateRequestStatus :: "env \<Rightarrow> string \<Rightarrow> status \<Rightarrow> server \<Rightarrow> (fail + unit) \<times> server" where
  "updateRequestStatus e requestId st s = http (patch_status e requestId (Some st)) s"

definition savePlantCodeDetails :: "env \<Rightarrow> details_body \<Rightarrow> server \<Rightarrow> (fail + unit) \<times> server" where
  "savePlantCodeDetails e details s = http (post_plant_details e details) s"

definition saveHistoryLog :: "env \<Rightarrow> history_body \<Rightarrow> server \<Rightarrow> (fail + unit) \<times> server" where
  "saveHistoryLog e log s = http (post_history e log) s"

definition role_name :: "role \<Rightarrow> string" where
  "role_name r = (case r of Requestor \<Rightarrow> ''requestor'' | It \<Rightarrow> ''it'' | Secretary \<Rightarrow> ''secretary''
                  | Siva \<Rightarrow> ''siva'' | Raghu \<Rightarrow> ''raghu'' | Manoj \<Rightarrow> ''manoj'' | Admin \<Rightarrow> ''admin'')"

definition decision_name :: "decision \<Rightarrow> string" where
  "decision_name d = (case d of Approve \<Rightarrow> ''approve'' | Reject \<Rightarrow> ''reject'')"

text \<open>
  \<open>addApproval\<close>: the approval is posted, then the history entry, both awaited with
  no handler of their own; the first error is thrown to the caller.
\<close>

definition addApproval ::
  "env \<Rightarrow> string \<Rightarrow> string \<Rightarrow> role \<Rightarrow> decision \<Rightarrow> string \<Rightarrow> string option \<Rightarrow> server \<Rightarrow>
   (fail + unit) \<times> server" where
  "addApproval e requestId approverEmail ro de comment attachmentId s =
     (let timestamp = client_now e in
      case http (post_approvals e
                  \<lparr>ab_requestId = Some requestId, ab_approverEmail = Some approverEmail,
                   ab_role = Some ro, ab_decision = Some de, ab_comment = Some comment,
                   ab_attachmentId = attachmentId, ab_timestamp = Some timestamp\<rparr>) s of
        (Inl f, s1) \<Rightarrow> (Inl f, s1)
      | (Inr u, s1) \<Rightarrow>
          http (post_history e
                  \<lparr>hb_requestId = Some requestId,
                   hb_action = Some (if de = Approve then Act_approve else Act_reject),
                   hb_user = Some approverEmail, hb_timestamp = Some timestamp,
                   hb_metadata = Some [(''comment'', comment), (''role'', role_name ro),
                                       (''decision'', decision_name de)]\<rparr>) s1)"

section \<open>Approval dashboard\<close>

text \<open>A row of \<open>getRequestsWithDetails\<close> as the dashboard holds it.\<close>

record dash_request =
  dr_id :: string
  dr_type :: req_type
  dr_status :: status
  dr_createdBy :: string

definition getNextStatus :: "status \<Rightarrow> decision \<Rightarrow> status" where
  "getNextStatus currentStatus de =
     (if de = Reject then Rejected
      else case map_of [(Pending_secretary, Pending_siva), (Pending_siva, Pending_raghu),
                        (Pending_raghu, Pending_manoj), (Pending_manoj, Approved)] currentStatus of
             Some next \<Rightarrow> next
           | None \<Rightarrow> currentStatus)"




datatype toast = Toast string string

text \<open>
  \<open>handleApproval(requestId, decision)\<close> with the component's \<open>userEmail\<close>,
  \<open>userRole\<close>, \<open>approvalComment\<close> and cached \<open>requests\<close>. The result is the toast
  shown (none on the silent return) and the state the server is left in.
\<close>

definition handleApproval ::
  "env \<Rightarrow> string \<Rightarrow> role \<Rightarrow> string \<Rightarrow> dash_request list \<Rightarrow> string \<Rightarrow> decision \<Rightarrow> server \<Rightarrow>
   toast option \<times> server" where
  "handleApproval e userEmail userRole approvalComment requests requestId de s =
     (if trim approvalComment = []
      then (Some (Toast ''Error'' ''Please add a comment for your decision''), s)
      else case find (\<lambda>r. dr_id r = requestId) requests of
        None \<Rightarrow> (None, s)
      | Some request \<Rightarrow>
          (case addApproval e requestId userEmail userRole de approvalComment None s of
             (Inl f, s1) \<Rightarrow> (Some (Toast ''Error'' ''Failed to process approval''), s1)
           | (Inr u, s1) \<Rightarrow>
               let nextStatus = getNextStatus (dr_status request) de in
               (case updateRequestStatus e requestId nextStatus s1 of
                  (Inl f, s2) \<Rightarrow> (Some (Toast ''Error'' ''Failed to process approval''), s2)
                | (Inr u, s2) \<Rightarrow>
                    (Some (Toast ''Success'' (''Request '' @ decision_name de @ ''d successfully'')), s2))))"

section \<open>Request forms\<close>

text \<open>The \<open>existingRequest\<close> prop as the forms read it.\<close>

record existing_request =
  er_requestId :: "string option"
  er_id :: "string option"
  er_createdAt :: "timestamp option"

record form_props =
  userEmail :: string
  existingRequest :: "existing_request option"
  isChangeRequest :: bool

record form_state =
  formData :: "(string \<times> string) list"
  originalData :: "(string \<times> string) list option"
  showConfirmation :: bool
  latestVersion :: "int option"

datatype submitted = Validation_error | Confirmation_shown | Saved | Save_failed

text \<open>\<open>anyReq.requestId || anyReq.id\<close> with \<open>anyReq = existingRequest || {}\<close>.\<close>

definition baseId :: "existing_request option \<Rightarrow> string option" where
  "baseId er = (case er of None \<Rightarrow> None
                | Some r \<Rightarrow> if falsy (er_requestId r) then er_id r else er_requestId r)"

text \<open>\<open>anyReq.createdAt\<close>.\<close>

definition anyReq_createdAt :: "existing_request option \<Rightarrow> timestamp option" where
  "anyReq_createdAt er = (case er of None \<Rightarrow> None | Some r \<Rightarrow> er_createdAt r)"

text \<open>\<open>String(x)\<close> for a string that may be \<open>undefined\<close>.\<close>

definition String_opt :: "string option \<Rightarrow> string" where
  "String_opt x = (case x of None \<Rightarrow> ''undefined'' | Some s \<Rightarrow> s)"

text \<open>A field of the form data inside a template literal.\<close>

definition field :: "(string \<times> string) list \<Rightarrow> string \<Rightarrow> string" where
  "field fd k = (case map_of fd k of None \<Rightarrow> ''undefined'' | Some v \<Rightarrow> v)"

text \<open>The first check of both forms' \<open>validateForm\<close>: no field is blank.\<close>

definition no_empty_fields :: "(string \<times> string) list \<Rightarrow> bool" where
  "no_empty_fields fd = (filter (\<lambda>(k, v). trim v = []) fd = [])"

definition nextVersion :: "form_props \<Rightarrow> form_state \<Rightarrow> int" where
  "nextVersion p st = (if isChangeRequest p then 1
                       else (case latestVersion st of None \<Rightarrow> 0 | Some v \<Rightarrow> v) + 1)"

subsection \<open>\<open>PlantCodeForm.handleSubmit\<close>\<close>

definition plant_title :: "form_props \<Rightarrow> form_state \<Rightarrow> string" where
  "plant_title p st =
     (if isChangeRequest p
      then ''Change Request - Plant Code: '' @ field (formData st) ''plantCode'' @ '' - ''
             @ field (formData st) ''nameOfPlant''
      else ''Plant Code: '' @ field (formData st) ''plantCode'' @ '' - ''
             @ field (formData st) ''nameOfPlant'')"

text \<open>
  The request is written first. When an existing request is edited its id is kept;
  otherwise the id is read from the value \<open>saveRequest\<close> returns (\<open>created\<close>), which
  is \<open>undefined\<close>. The result is the thrown error, or the \<open>requestId\<close> the handler goes
  on with (\<open>None\<close> for \<open>undefined\<close>).
\<close>

definition plant_saveRequest ::
  "env \<Rightarrow> form_props \<Rightarrow> form_state \<Rightarrow> server \<Rightarrow> (fail + string option) \<times> server" where
  "plant_saveRequest e p st s =
     (if existingRequest p \<noteq> None \<and> \<not> isChangeRequest p
      then (case saveRequest e
                   \<lparr>rb_requestId = Some (String_opt (baseId (existingRequest p))),
                    rb_type = Some Plant, rb_title = Some (plant_title p st),
                    rb_status = Some Pending_siva, rb_createdBy = Some (userEmail p),
                    rb_createdAt = Some (ISNULL (anyReq_createdAt (existingRequest p)) (client_now e)),
                    rb_updatedAt = Some (client_now e), rb_ncType = None\<rparr> s of
              (Inl f, s1) \<Rightarrow> (Inl f, s1)
            | (Inr created, s1) \<Rightarrow> (Inr (Some (String_opt (baseId (existingRequest p)))), s1))
      else (case saveRequest e
                   \<lparr>rb_requestId = None, rb_type = Some Plant, rb_title = Some (plant_title p st),
                    rb_status = Some Pending_siva, rb_createdBy = Some (userEmail p),
                    rb_createdAt = Some (client_now e), rb_updatedAt = Some (client_now e),
                    rb_ncType = Some (JStr (if isChangeRequest p then ''C'' else ''N''))\<rparr> s of
              (Inl f, s1) \<Rightarrow> (Inl f, s1)
            | (Inr created, s1) \<Rightarrow> (Inr None, s1)))"

text \<open>
  \<open>handleSubmit\<close> of the plant form. A missing \<open>requestId\<close> makes the handler throw
  \<open>Missing server-generated requestId\<close>, after the request row has been written. The
  upload of staged attachments (a blob store outside this model, its failure caught) is
  left out; the metadata of the history entry, built with \<open>compareObjects\<close>, is the
  argument \<open>metadata\<close>. A failure of the history entry is caught and does not change the
  outcome.
\<close>

definition PlantCodeForm_handleSubmit ::
  "env \<Rightarrow> form_props \<Rightarrow> form_state \<Rightarrow> (string \<times> string) list \<Rightarrow> server \<Rightarrow> submitted \<times> server" where
  "PlantCodeForm_handleSubmit e p st metadata s =
     (if \<not> no_empty_fields (formData st) then (Validation_error, s)
      else if (existingRequest p \<noteq> None \<or> isChangeRequest p) \<and> \<not> showConfirmation st
      then (Confirmation_shown, s)
      else case plant_saveRequest e p st s of
        (Inl f, s1) \<Rightarrow> (Save_failed, s1)
      | (Inr requestId, s1) \<Rightarrow>
          if falsy requestId then (Save_failed, s1)
          else
            (case savePlantCodeDetails e
                    \<lparr>db_requestId = requestId, db_version = Some (nextVersion p st),
                     db_entries = map (\<lambda>(k, v). (k, Some v)) (formData st)\<rparr> s1 of
               (Inl f, s2) \<Rightarrow> (Save_failed, s2)
             | (Inr u, s2) \<Rightarrow>
                 (Saved,
                  snd (saveHistoryLog e
                         \<lparr>hb_requestId = requestId,
                          hb_action = Some (if isChangeRequest p \<and> originalData st \<noteq> None
                                            then Act_create
                                            else if existingRequest p \<noteq> None then Act_edit
                                            else Act_create),
                          hb_user = Some (userEmail p), hb_timestamp = Some (client_now e),
                          hb_metadata = Some metadata\<rparr> s2))))"

subsection \<open>\<open>CompanyCodeForm.handleSubmit\<close>\<close>

definition company_title :: "form_props \<Rightarrow> form_state \<Rightarrow> string" where
  "company_title p st =
     (if isChangeRequest p
      then ''Change Request - Company Code: '' @ field (formData st) ''companyCode'' @ '' - ''
             @ field (formData st) ''nameOfCompanyCode''
      else ''Company Code: '' @ field (formData st) ''companyCode'' @ '' - ''
             @ field (formData st) ''nameOfCompanyCode'')"

text \<open>The same first step in the company form, which writes \<open>pending-secretary\<close>.\<close>

definition company_saveRequest ::
  "env \<Rightarrow> form_props \<Rightarrow> form_state \<Rightarrow> server \<Rightarrow> (fail + string option) \<times> server" where
  "company_saveRequest e p st s =
     (if existingRequest p \<noteq> None \<and> \<not> isChangeRequest p
      then (case saveRequest e
                   \<lparr>rb_requestId = Some (String_opt (baseId (existingRequest p))),
                    rb_type = Some Company, rb_title = Some (company_title p st),
                    rb_status = Some Pending_secretary, rb_createdBy = Some (userEmail p),
                    rb_createdAt = Some (ISNULL (anyReq_createdAt (existingRequest p)) (client_now e)),
                    rb_updatedAt = Some (client_now e), rb_ncType = None\<rparr> s of
              (Inl f, s1) \<Rightarrow> (Inl f, s1)
            | (Inr created, s1) \<Rightarrow> (Inr (Some (String_opt (baseId (existingRequest p)))), s1))
      else (case saveRequest e
                   \<lparr>rb_requestId = None, rb_type = Some Company, rb_title = Some (company_title p st),
                    rb_status = Some Pending_secretary, rb_createdBy = Some (userEmail p),
                    rb_createdAt = Some (client_now e), rb_updatedAt = Some (client_now e),
                    rb_ncType = Some (JStr (if isChangeRequest p then ''C'' else ''N''))\<rparr> s of
              (Inl f, s1) \<Rightarrow> (Inl f, s1)
            | (Inr created, s1) \<Rightarrow> (Inr None, s1)))"

section \<open>Request details dialog\<close>

record 'c CompareResult =
  hasChanges :: bool
  changes :: "'c list"
  changedFields :: "string list"

text \<open>
  \<open>[...versions].sort((a, b) => Number(b.version ?? 0) - Number(a.version ?? 0))\<close>:
  a stable sort, by descending version.
\<close>

definition sortedVersions :: "details_row list \<Rightarrow> details_row list" where
  "sortedVersions versions = sort_key (\<lambda>r. - d_version r) versions"

text \<open>
  The memoised \<open>diff\<close>. \<open>compareObjects\<close> comes from \<open>lib/changeTracking\<close>, which is not
  among the sources, and is an argument here.
\<close>

definition diff ::
  "(details_row \<Rightarrow> details_row \<Rightarrow> req_type \<Rightarrow> 'c CompareResult) \<Rightarrow> details_row list \<Rightarrow> req_type \<Rightarrow>
   'c CompareResult" where
  "diff compareObjects versions ty =
     (case sortedVersions versions of
        latest # prev # rest \<Rightarrow> compareObjects prev latest ty
      | _ \<Rightarrow> \<lparr>hasChanges = False, changes = [], changedFields = []\<rparr>)"

section \<open>Example states\<close>

definition no_counters :: counters where
  "no_counters = Map.empty"

text \<open>The counter of new requests of 3 September 2025 at the largest 32-bit value.\<close>

definition full_counters :: counters where
  "full_counters = no_counters((CHR ''N'', ''20250903'') \<mapsto> 2147483647)"

text \<open>Two stored versions of a plant request, and the request list that holds one of them.\<close>

definition alpha_v1 :: details_row where
  "alpha_v1 = \<lparr>d_requestId = ''N_01012025_001'', d_version = 1,
               d_cols = [(''nameOfPlant'', Some ''Alpha'')]\<rparr>"

definition beta_v2 :: details_row where
  "beta_v2 = \<lparr>d_requestId = ''N_01012025_001'', d_version = 2,
              d_cols = [(''nameOfPlant'', Some ''Beta'')]\<rparr>"

text \<open>
  A stand-in for \<open>compareObjects\<close> that records which version it was given on which
  side.
\<close>

definition sides :: "details_row \<Rightarrow> details_row \<Rightarrow> req_type \<Rightarrow> (int \<times> int) CompareResult" where
  "sides old new ty = \<lparr>hasChanges = (d_cols old \<noteq> d_cols new),
                        changes = [(d_version old, d_version new)], changedFields = []\<rparr>"

text \<open>
  A server holding one plant request awaiting the secretarial stage, and the calls made
  against it in the worked examples.
\<close>

definition env0 :: env where
  "env0 = \<lparr>now = 2000, today = ''20250101'', client_now = 1000, mail_throws = False\<rparr>"

definition request1 :: request_row where
  "request1 = \<lparr>r_requestId = ''N_01012025_001'', r_type = Plant,
               r_title = ''Plant Code: P100 - Alpha'', r_status = Pending_secretary,
               r_createdBy = ''asha@pel.com'', r_createdAt = 500, r_updatedAt = 500\<rparr>"

definition server1 :: server where
  "server1 = \<lparr>Requests = [request1], PlantCodeDetails_columns = DDL_plant_columns,
              PlantCodeDetails = [], Approvals = [], HistoryLogs = [],
              RequestIdCounters = no_counters, console = []\<rparr>"

definition history_create :: history_body where
  "history_create = \<lparr>hb_requestId = Some ''N_01012025_001'', hb_action = Some Act_create,
                     hb_user = Some ''asha@pel.com'', hb_timestamp = Some 1000, hb_metadata = None\<rparr>"

definition history_edit :: history_body where
  "history_edit = \<lparr>hb_requestId = Some ''N_01012025_001'', hb_action = Some Act_edit,
                   hb_user = Some ''asha@pel.com'', hb_timestamp = Some 1000, hb_metadata = None\<rparr>"

definition history_later :: history_body where
  "history_later = \<lparr>hb_requestId = Some ''N_01012025_001'', hb_action = Some Act_edit,
                    hb_user = Some ''asha@pel.com'', hb_timestamp = Some 1700, hb_metadata = None\<rparr>"

definition server1_logged :: server where
  "server1_logged = server1\<lparr>HistoryLogs :=
      [\<lparr>h_requestId = ''N_01012025_001'', h_timestamp = 1000, h_action = Act_create,
        h_user = ''asha@pel.com'', h_metadata = None\<rparr>]\<rparr>"

definition reject_by_siva :: approval_body where
  "reject_by_siva = \<lparr>ab_requestId = Some ''N_01012025_001'', ab_approverEmail = Some ''siva@pel.com'',
                     ab_role = Some Siva, ab_decision = Some Reject, ab_comment = Some ''missing GST'',
                     ab_attachmentId = None, ab_timestamp = Some 1000\<rparr>"

definition approve_by_siva :: approval_body where
  "approve_by_siva = \<lparr>ab_requestId = Some ''N_01012025_001'', ab_approverEmail = Some ''siva@pel.com'',
                      ab_role = Some Siva, ab_decision = Some Approve, ab_comment = Some ''ok now'',
                      ab_attachmentId = Some ''att-7'', ab_timestamp = Some 1500\<rparr>"

definition server1_rejected :: server where
  "server1_rejected = server1\<lparr>Approvals :=
      [\<lparr>a_requestId = ''N_01012025_001'', a_approverEmail = ''siva@pel.com'', a_role = Siva,
        a_decision = Reject, a_comment = Some ''missing GST'', a_attachmentId = None,
        a_timestamp = 1000\<rparr>]\<rparr>"

definition server1_approved :: server where
  "server1_approved = server1\<lparr>Approvals :=
      [\<lparr>a_requestId = ''N_01012025_001'', a_approverEmail = ''siva@pel.com'', a_role = Siva,
        a_decision = Approve, a_comment = Some ''ok now'', a_attachmentId = Some ''att-7'',
        a_timestamp = 1500\<rparr>]\<rparr>"

text \<open>
  A filled plant form, the same form with another plant name, and the details bodies
  two editors post for version 2 after both have read version 1 as the latest.
\<close>

definition alpha_form :: "(string \<times> string) list" where
  "alpha_form =
     [(''companyCode'', ''1000''), (''gstNumber'', ''36AAACP1234A1Z5''), (''gstCertificate'', ''gst.pdf''),
      (''plantCode'', ''P100''), (''nameOfPlant'', ''Alpha''), (''addressOfPlant'', ''Hyderabad''),
      (''purchaseOrganization'', ''PO10''), (''nameOfPurchaseOrganization'', ''Purchasing''),
      (''salesOrganization'', ''SO10''), (''nameOfSalesOrganization'', ''Sales''),
      (''profitCenter'', ''PC10''), (''nameOfProfitCenter'', ''Profit''),
      (''costCenters'', ''CC10''), (''nameOfCostCenters'', ''Cost''),
      (''projectCode'', ''PR10''), (''projectCodeDescription'', ''Project''),
      (''storageLocationCode'', ''SL10''), (''storageLocationDescription'', ''Store'')]"

definition beta_form :: "(string \<times> string) list" where
  "beta_form = map (\<lambda>(k, v). if k = ''nameOfPlant'' then (k, ''Beta'') else (k, v)) alpha_form"




definition server2 :: server where
  "server2 = server1\<lparr>PlantCodeDetails_columns := plant_columns\<rparr>"


text \<open>A save of the stored plant request that names the other type.\<close>

definition retype_body :: request_body where
  "retype_body = \<lparr>rb_requestId = Some ''N_01012025_001'', rb_type = Some Company,
                  rb_title = Some ''Company Code: 1000 - Alpha'', rb_status = Some Pending_secretary,
                  rb_createdBy = Some ''asha@pel.com'', rb_createdAt = Some 500,
                  rb_updatedAt = Some 1000, rb_ncType = None\<rparr>"

definition stored_types :: "server \<Rightarrow> (string \<times> req_type) list" where
  "stored_types s = map (\<lambda>r. (r_requestId r, r_type r)) (Requests s)"

definition same_type_body :: request_body where
  "same_type_body = retype_body\<lparr>rb_type := Some Plant\<rparr>"

definition server1_retyped :: server where
  "server1_retyped = server1\<lparr>Requests :=
      [request1\<lparr>r_type := Company, r_title := ''Company Code: 1000 - Alpha'', r_updatedAt := 1000\<rparr>]\<rparr>"

definition server1_resaved :: server where
  "server1_resaved = server1\<lparr>Requests :=
      [request1\<lparr>r_title := ''Company Code: 1000 - Alpha'', r_updatedAt := 1000\<rparr>]\<rparr>"

text \<open>Approvals posted without a comment, and with an empty one.\<close>

definition approve_no_comment :: approval_body where
  "approve_no_comment = \<lparr>ab_requestId = Some ''N_01012025_001'', ab_approverEmail = Some ''sec@pel.com'',
                         ab_role = Some Secretary, ab_decision = Some Approve, ab_comment = None,
                         ab_attachmentId = None, ab_timestamp = Some 1000\<rparr>"

definition approve_empty_comment :: approval_body where
  "approve_empty_comment = approve_no_comment\<lparr>ab_comment := Some []\<rparr>"

definition server1_no_comment :: server where
  "server1_no_comment = server1\<lparr>Approvals :=
      [\<lparr>a_requestId = ''N_01012025_001'', a_approverEmail = ''sec@pel.com'', a_role = Secretary,
        a_decision = Approve, a_comment = None, a_attachmentId = None, a_timestamp = 1000\<rparr>]\<rparr>"

text \<open>The dashboard's row for the stored request.\<close>

definition dash1 :: dash_request where
  "dash1 = \<lparr>dr_id = ''N_01012025_001'', dr_type = Plant, dr_status = Pending_secretary,
            dr_createdBy = ''asha@pel.com''\<rparr>"

definition statuses :: "server \<Rightarrow> (string \<times> status) list" where
  "statuses s = map (\<lambda>r. (r_requestId r, r_status r)) (Requests s)"








text \<open>
  The same approval when the history log already holds an entry of that request with
  the timestamp of the call: the approval is stored, the history entry is not.
\<close>

definition server1_logged_recorded :: server where
  "server1_logged_recorded = server1_logged\<lparr>
      Approvals := [\<lparr>a_requestId = ''N_01012025_001'', a_approverEmail = ''sec@pel.com'',
                     a_role = Secretary, a_decision = Approve, a_comment = Some ''ok'',
                     a_attachmentId = None, a_timestamp = 1000\<rparr>]\<rparr>"

text \<open>
  The requestor opens the plant form on the stored request after it was rejected, changes
  the plant name and confirms, on a server whose details table has every column the
  handler names; and a requestor who fills the form for a new request on a server with no
  request yet.
\<close>

definition edit_props :: form_props where
  "edit_props = \<lparr>userEmail = ''asha@pel.com'',
                 existingRequest = Some \<lparr>er_requestId = Some ''N_01012025_001'', er_id = None,
                                          er_createdAt = Some 500\<rparr>,
                 isChangeRequest = False\<rparr>"

definition edit_state :: form_state where
  "edit_state = \<lparr>formData = beta_form, originalData = Some alpha_form, showConfirmation = True,
                 latestVersion = Some 1\<rparr>"

definition alpha_row :: details_row where
  "alpha_row = \<lparr>d_requestId = ''N_01012025_001'', d_version = 1,
                d_cols = map (\<lambda>(k, v). (k, Some v)) alpha_form\<rparr>"

definition beta_row :: details_row where
  "beta_row = \<lparr>d_requestId = ''N_01012025_001'', d_version = 2,
               d_cols = map (\<lambda>(k, v). (k, Some v)) beta_form\<rparr>"

definition server_rejected :: server where
  "server_rejected = server2\<lparr>Requests := [request1\<lparr>r_status := Rejected\<rparr>],
                             PlantCodeDetails := [alpha_row]\<rparr>"

text \<open>The same rejected request on a server with the table of the schema bootstrap.\<close>

definition server_rejected_bootstrap :: server where
  "server_rejected_bootstrap = server1\<lparr>Requests := [request1\<lparr>r_status := Rejected\<rparr>],
      PlantCodeDetails := [\<lparr>d_requestId = ''N_01012025_001'', d_version = 1,
                             d_cols = map (\<lambda>k. (k, map_of alpha_form k)) DDL_plant_columns\<rparr>]\<rparr>"

definition server_resubmitted :: server where
  "server_resubmitted = server2\<lparr>
      Requests := [request1\<lparr>r_title := ''Plant Code: P100 - Beta'', r_status := Pending_siva,
                            r_updatedAt := 1000\<rparr>],
      PlantCodeDetails := [alpha_row, beta_row],
      HistoryLogs := [\<lparr>h_requestId = ''N_01012025_001'', h_timestamp = 1000, h_action = Act_edit,
                       h_user = ''asha@pel.com'', h_metadata = Some []\<rparr>]\<rparr>"

definition new_props :: form_props where
  "new_props = \<lparr>userEmail = ''asha@pel.com'', existingRequest = None, isChangeRequest = False\<rparr>"

definition new_state :: form_state where
  "new_state = \<lparr>formData = alpha_form, originalData = None, showConfirmation = False,
                latestVersion = None\<rparr>"

definition server_empty :: server where
  "server_empty = \<lparr>Requests = [], PlantCodeDetails_columns = DDL_plant_columns,
                   PlantCodeDetails = [], Approvals = [], HistoryLogs = [],
                   RequestIdCounters = no_counters, console = []\<rparr>"

text \<open>A filled company form for a new request.\<close>

definition company_state :: form_state where
  "company_state = \<lparr>formData =
       [(''companyCode'', ''1000''), (''nameOfCompanyCode'', ''Premier''),
        (''shareholdingPercentage'', ''51''), (''gstNumber'', ''36AAACP1234A1Z5''),
        (''cinNumber'', ''U40106TG1995PLC019909''), (''panNumber'', ''AAACP1234A''),
        (''gstCertificate'', ''gst.pdf''), (''cin'', ''cin.pdf''), (''pan'', ''pan.pdf''),
        (''segment'', ''S1''), (''nameOfSegment'', ''Solar'')],
     originalData = None, showConfirmation = False, latestVersion = None\<rparr>"

section \<open>The request-ID allocator\<close>

lemma String_nat_small: "n < 10 \<Longrightarrow> String_nat n = [digit_char n]"
  by (simp add: String_nat.simps)

lemma toUpperCase_char_C: "toUpperCase_char c = CHR ''C'' \<longleftrightarrow> c = CHR ''C'' \<or> c = CHR ''c''"
  by (auto simp: toUpperCase_char_def split: option.splits if_splits)

lemma toUpperCase_C: "toUpperCase s = ''C'' \<longleftrightarrow> s = ''C'' \<or> s = ''c''"
  by (cases s) (auto simp: toUpperCase_def toUpperCase_char_C)

lemma ncType_prefix_cases: "ncType_prefix ncType = Some p \<Longrightarrow> p = CHR ''C'' \<or> p = CHR ''N''"
  by (auto simp: ncType_prefix_def split: if_splits)

lemma digit_table:
  "k < 10 \<Longrightarrow> digit_val (''0123456789'' ! k) = k \<and> is_digit (''0123456789'' ! k)"
  by (auto simp: less_Suc_eq eval_nat_numeral digit_val_def is_digit_def)

lemma digit_char_val: "digit_val (digit_char d) = d mod 10"
  by (simp add: digit_char_def digit_table)

lemma digit_char_is_digit: "is_digit (digit_char d)"
  by (simp add: digit_char_def digit_table)

lemma decimal_val_snoc: "decimal_val (s @ [c]) = 10 * decimal_val s + digit_val c"
  by (simp add: decimal_val_def)

lemma decimal_val_String_nat: "decimal_val (String_nat n) = n"
proof (induction n rule: String_nat.induct)
  case (1 n)
  show ?case
  proof (cases "n < 10")
    case True
    then show ?thesis
      by (subst String_nat.simps) (simp add: decimal_val_def digit_char_val)
  next
    case False
    with 1 show ?thesis
      by (subst String_nat.simps) (simp add: decimal_val_snoc digit_char_val)
  qed
qed

lemma digits_String_nat: "list_all is_digit (String_nat n)"
proof (induction n rule: String_nat.induct)
  case (1 n)
  show ?case
  proof (cases "n < 10")
    case True
    then show ?thesis
      by (subst String_nat.simps) (simp add: digit_char_is_digit)
  next
    case False
    with 1 show ?thesis
      by (subst String_nat.simps) (simp add: digit_char_is_digit)
  qed
qed

lemma String_nat_step: "\<not> n < 10 \<Longrightarrow> String_nat n = String_nat (n div 10) @ [digit_char (n mod 10)]"
  by (subst String_nat.simps) simp

lemma length_String_nat: "n < 1000 \<Longrightarrow> length (String_nat n) \<le> 3"
proof -
  assume n: "n < 1000"
  have b: "length (String_nat m) \<le> 2" if "m < 100" for m
  proof (cases "m < 10")
    case True
    then show ?thesis by (simp add: String_nat_small)
  next
    case False
    moreover have "m div 10 < 10" using that by simp
    ultimately show ?thesis by (simp add: String_nat_step String_nat_small)
  qed
  show ?thesis
  proof (cases "n < 10")
    case True
    then show ?thesis by (simp add: String_nat_small)
  next
    case False
    moreover have "n div 10 < 100" using n by simp
    ultimately show ?thesis using b [of "n div 10"] by (simp add: String_nat_step)
  qed
qed

lemma length_String_nat_pos: "0 < length (String_nat n)"
  by (subst String_nat.simps) simp

lemma decimal_val_zeros: "decimal_val (replicate k (CHR ''0'') @ s) = decimal_val s"
  by (induction k) (simp_all add: decimal_val_def digit_val_def)

lemma padStart_value: "decimal_val (padStart 3 (CHR ''0'') (String_nat n)) = n"
  by (simp add: padStart_def decimal_val_zeros decimal_val_String_nat)

lemma padStart_digits: "list_all is_digit (padStart 3 (CHR ''0'') (String_nat n))"
proof -
  have "is_digit (CHR ''0'')"
    by (simp add: is_digit_def)
  then have "list_all is_digit (replicate k (CHR ''0''))" for k
    by (induction k) simp_all
  then show ?thesis
    by (simp add: padStart_def digits_String_nat)
qed

lemma padStart_length_ge: "3 \<le> length (padStart 3 c s)"
  by (simp add: padStart_def)

lemma padStart_length: "n < 1000 \<Longrightarrow> length (padStart 3 (CHR ''0'') (String_nat n)) = 3"
  using length_String_nat [of n] by (simp add: padStart_def)

lemma toUpperCase_Nil: "toUpperCase s = [] \<longleftrightarrow> s = []"
  by (simp add: toUpperCase_def)

lemma String_nat_not_C: "toUpperCase (String_nat n) \<noteq> ''C''"
proof
  assume "toUpperCase (String_nat n) = ''C''"
  then have "String_nat n = ''C'' \<or> String_nat n = ''c''"
    by (simp add: toUpperCase_C)
  moreover have "list_all is_digit (String_nat n)"
    by (rule digits_String_nat)
  ultimately show False
    by (auto simp: is_digit_def)
qed

lemma String_int_not_C: "toUpperCase (String_int n) \<noteq> ''C''"
proof (cases "n < 0")
  case True
  then show ?thesis
    by (simp add: String_int_def toUpperCase_def toUpperCase_char_def)
next
  case False
  then show ?thesis
    using String_nat_not_C [of "nat n"] by (simp add: String_int_def)
qed

lemma upper_int: "map toUpperCase_char (String_int n) \<noteq> ''C''"
  using String_int_not_C [of n] by (simp add: toUpperCase_def)

lemma upper_comma: "a @ CHR '','' # b \<noteq> ''C''"
  by (cases a) auto

lemma join_two: "toUpperCase (join (a # b # rest)) \<noteq> ''C''"
proof -
  have "x @ toUpperCase_char (CHR '','') # y \<noteq> ''C''" for x y
    by (cases x) (auto simp: toUpperCase_char_def)
  then show ?thesis
    by (simp add: toUpperCase_def)
qed

lemma those_two:
  "map_option (\<lambda>ys. toUpperCase (join ys)) (those (a # b # rest)) \<noteq> Some ''C''"
proof
  assume h: "map_option (\<lambda>ys. toUpperCase (join ys)) (those (a # b # rest)) = Some ''C''"
  then obtain ys where ys: "those (a # b # rest) = Some ys" "toUpperCase (join ys) = ''C''"
    by auto
  from ys(1) obtain a' b' rest' where "ys = a' # b' # rest'"
    by (auto split: option.splits)
  with ys(2) join_two show False
    by blast
qed

lemma String_json_C: "map_option toUpperCase (String_json v) = Some ''C'' \<longleftrightarrow> names_C v"
proof (induction v)
  case JNull
  show ?case by (simp add: toUpperCase_def toUpperCase_char_def)
next
  case (JBool b)
  show ?case by (simp add: toUpperCase_def toUpperCase_char_def)
next
  case (JNum n)
  show ?case by (simp add: String_int_not_C)
next
  case (JStr s)
  show ?case by (simp add: toUpperCase_C)
next
  case (JArr xs)
  show ?case
  proof (cases xs)
    case Nil
    then show ?thesis by (simp add: toUpperCase_def)
  next
    case (Cons x ys)
    note xs = this
    show ?thesis
    proof (cases ys)
      case Nil
      have "map_option toUpperCase (String_json x) = Some ''C'' \<longleftrightarrow> names_C x"
        using xs by (intro JArr) simp
      with xs Nil show ?thesis
        by (cases "x = JNull"; cases "String_json x") (simp_all add: toUpperCase_def)
    next
      case (Cons y zs)
      have "map_option (\<lambda>ys. toUpperCase (join ys))
              (those (map (\<lambda>x. if x = JNull then Some [] else String_json x) (x # y # zs))) \<noteq> Some ''C''"
        unfolding list.map by (rule those_two)
      with xs Cons show ?thesis
        by (simp add: option.map_comp comp_def)
    qed
  qed
next
  case (JObj kvs)
  show ?case by (simp add: toUpperCase_def toUpperCase_char_def)
qed

lemma those_None: "those (map f xs) = None \<longleftrightarrow> (\<exists>x\<in>set xs. f x = None)"
  by (induction xs) (auto split: option.splits)

lemma String_json_None: "String_json v = None \<longleftrightarrow> String_throws v"
proof (induction v)
  case (JArr xs)
  have "String_json (JArr xs) = None
          \<longleftrightarrow> (\<exists>x\<in>set xs. (if x = JNull then Some [] else String_json x) = None)"
    by (simp add: those_None)
  also have "\<dots> \<longleftrightarrow> (\<exists>x\<in>set xs. String_throws x)"
  proof (rule bex_cong [OF refl])
    fix x assume "x \<in> set xs"
    then have "String_json x = None \<longleftrightarrow> String_throws x"
      by (rule JArr)
    then show "(if x = JNull then Some [] else String_json x) = None \<longleftrightarrow> String_throws x"
      by (cases "x = JNull") simp_all
  qed
  finally show ?case by simp
qed simp_all

lemma String_throws_truthy: "String_throws v \<Longrightarrow> truthy v"
  by (cases v) simp_all

lemma names_C_truthy: "names_C v \<Longrightarrow> truthy v"
  by (induction v rule: names_C.induct) auto

lemma ncType_prefix_C:
  "ncType_prefix ncType = Some (CHR ''C'') \<longleftrightarrow> (\<exists>v. ncType = Some v \<and> names_C v)"
proof -
  have n: "toUpperCase ''N'' \<noteq> ''C''"
    by (simp add: toUpperCase_def toUpperCase_char_def)
  have c: "map_option (\<lambda>s. if toUpperCase s = ''C'' then CHR ''C'' else CHR ''N'') (String_json v)
             = Some (CHR ''C'') \<longleftrightarrow> names_C v" for v
    using String_json_C [of v] by (cases "String_json v") auto
  show ?thesis
  proof (cases ncType)
    case None
    then show ?thesis
      by (simp add: ncType_prefix_def n)
  next
    case (Some v)
    show ?thesis
    proof (cases "truthy v")
      case True
      with Some have "ncType_prefix ncType =
          map_option (\<lambda>s. if toUpperCase s = ''C'' then CHR ''C'' else CHR ''N'') (String_json v)"
        by (simp add: ncType_prefix_def)
      then have "ncType_prefix ncType = Some (CHR ''C'') \<longleftrightarrow> names_C v"
        by (simp only: c)
      with Some show ?thesis
        by simp
    next
      case False
      with Some n names_C_truthy [of v] show ?thesis
        by (auto simp: ncType_prefix_def)
    qed
  qed
qed

lemma ncType_prefix_None:
  "ncType_prefix ncType = None \<longleftrightarrow> (\<exists>v. ncType = Some v \<and> String_throws v)"
proof (cases ncType)
  case None
  then show ?thesis
    by (simp add: ncType_prefix_def)
next
  case (Some v)
  show ?thesis
  proof (cases "truthy v")
    case True
    with Some show ?thesis
      by (simp add: ncType_prefix_def String_json_None)
  next
    case False
    with Some String_throws_truthy [of v] show ?thesis
      by (auto simp: ncType_prefix_def)
  qed
qed

lemma slice_date:
  "length yyyy = 4 \<Longrightarrow> length mm = 2 \<Longrightarrow> length dd = 2 \<Longrightarrow>
   slice 6 8 (yyyy @ mm @ dd) @ slice 4 6 (yyyy @ mm @ dd) @ slice 0 4 (yyyy @ mm @ dd) = dd @ mm @ yyyy"
  by (simp add: slice_def)

text \<open>
  Claim C6, as the code has it. \<open>generateRequestId(ncType)\<close> returns
  \<open>{N|C}_{DDMMYYYY}_{seq3}\<close>: the prefix is \<open>C\<close> exactly when
  \<open>String(ncType || "N").toUpperCase()\<close> is \<open>C\<close>, which is so for \<open>'C'\<close>, for
  \<open>'c'\<close> and for an array that holds just one such value, and \<open>N\<close> otherwise;
  \<open>DDMMYYYY\<close> is the allocation day; the sequence is the value of the
  \<open>(prefix, day)\<close> counter after the one increment-or-insert (1 on the first allocation
  of the day), zero-padded to 3 digits. The counter row is left at that value. All this
  holds unless the conversion \<open>String(ncType)\<close> throws, which it does for an object with a
  \<open>toString\<close> entry of its own and for an array that holds one, or the counter already
  has the largest value of its 32-bit column, where the increment throws; no identifier
  is returned then.
\<close>

theorem generateRequestId_format:
  assumes "length yyyy = 4" and "length mm = 2" and "length dd = 2"
    and "ncType_prefix ncType = Some prefix"
    and "t (prefix, yyyy @ mm @ dd) \<noteq> Some 2147483647"
    and "seq = (case t (prefix, yyyy @ mm @ dd) of None \<Rightarrow> 1 | Some n \<Rightarrow> n + 1)"
    and "seq3 = padStart 3 (CHR ''0'') (String_int seq)"
  shows "generateRequestId ncType (yyyy @ mm @ dd) t =
           Some (prefix # ''_'' @ dd @ mm @ yyyy @ ''_'' @ seq3, t((prefix, yyyy @ mm @ dd) \<mapsto> seq))
         \<and> (prefix = CHR ''C'' \<longleftrightarrow> (\<exists>v. ncType = Some v \<and> names_C v))
         \<and> (prefix \<noteq> CHR ''C'' \<longrightarrow> prefix = CHR ''N'')
         \<and> (0 \<le> seq \<longrightarrow> list_all is_digit seq3 \<and> decimal_val seq3 = nat seq \<and> 3 \<le> length seq3
               \<and> (seq < 1000 \<longrightarrow> length seq3 = 3))
         \<and> (ncType_prefix nc = None \<longleftrightarrow> (\<exists>v. nc = Some v \<and> String_throws v))
         \<and> (ncType_prefix nc = None \<longrightarrow> generateRequestId nc day t2 = None)
         \<and> (ncType_prefix nc = Some p \<and> t2 (p, day) = Some 2147483647 \<longrightarrow>
               generateRequestId nc day t2 = None)"
proof -
  have "generateRequestId ncType (yyyy @ mm @ dd) t =
           Some (prefix # ''_'' @ dd @ mm @ yyyy @ ''_'' @ seq3, t((prefix, yyyy @ mm @ dd) \<mapsto> seq))"
    using assms slice_date [of yyyy mm dd]
    by (auto simp: generateRequestId_def merge_counter_def Let_def split: option.splits)
  moreover have "prefix \<noteq> CHR ''C'' \<longrightarrow> prefix = CHR ''N''"
    using ncType_prefix_cases [OF assms(4)] by blast
  moreover have "0 \<le> seq \<longrightarrow> list_all is_digit seq3 \<and> decimal_val seq3 = nat seq \<and> 3 \<le> length seq3
           \<and> (seq < 1000 \<longrightarrow> length seq3 = 3)"
    using assms(7) padStart_length [of "nat seq"]
    by (auto simp: String_int_def padStart_value padStart_digits padStart_length_ge)
  moreover have "prefix = CHR ''C'' \<longleftrightarrow> (\<exists>v. ncType = Some v \<and> names_C v)"
    using ncType_prefix_C [of ncType] assms(4) by simp
  moreover have "ncType_prefix nc = None \<longrightarrow> generateRequestId nc day t2 = None"
    by (simp add: generateRequestId_def)
  moreover have "ncType_prefix nc = Some p \<and> t2 (p, day) = Some 2147483647 \<longrightarrow>
               generateRequestId nc day t2 = None"
    by (simp add: generateRequestId_def merge_counter_def)
  ultimately show ?thesis
    using ncType_prefix_None [of nc] by blast
qed

theorem generateRequestId_format_witness:
  "generateRequestId (Some (JStr ''C'')) (''2025'' @ ''09'' @ ''03'') no_counters =
     Some (CHR ''C'' # ''_'' @ ''03'' @ ''09'' @ ''2025'' @ ''_'' @ ''001'',
           no_counters((CHR ''C'', ''2025'' @ ''09'' @ ''03'') \<mapsto> 1))
   \<and> decimal_val ''001'' = 1"
proof -
  have p: "ncType_prefix (Some (JStr ''C'')) = Some (CHR ''C'')"
    by (simp add: ncType_prefix_C)
  have s: "''001'' = padStart 3 (CHR ''0'') (String_int 1)"
    by (simp add: padStart_def String_int_def String_nat_small digit_char_def numeral_2_eq_2)
  have h1: "length ''2025'' = 4" and h2: "length ''09'' = 2" and h3: "length ''03'' = 2"
    by simp_all
  have h4: "no_counters (CHR ''C'', ''2025'' @ ''09'' @ ''03'') \<noteq> Some 2147483647"
    by (simp add: no_counters_def)
  have h5: "(1::int) = (case no_counters (CHR ''C'', ''2025'' @ ''09'' @ ''03'') of
                          None \<Rightarrow> 1 | Some n \<Rightarrow> n + 1)"
    by (simp add: no_counters_def)
  note fmt = generateRequestId_format [of "''2025''" "''09''" "''03''" "Some (JStr ''C'')" "CHR ''C''"
      no_counters 1 "''001''", OF h1 h2 h3 p h4 h5 s]
  from fmt have a: "generateRequestId (Some (JStr ''C'')) (''2025'' @ ''09'' @ ''03'') no_counters =
     Some (CHR ''C'' # ''_'' @ ''03'' @ ''09'' @ ''2025'' @ ''_'' @ ''001'',
           no_counters((CHR ''C'', ''2025'' @ ''09'' @ ''03'') \<mapsto> 1))"
    by (rule conjunct1)
  from fmt have b: "decimal_val ''001'' = nat 1"
    by simp
  from a b show ?thesis
    by simp
qed

text \<open>
  Claim C6 as stated fails in three places. For a lower-case \<open>'c'\<close>, and for the array
  \<open>['c']\<close>, the value is not \<open>'C'\<close> and the identifier allocated still carries the
  prefix \<open>C\<close>. When the counter of the day holds the largest 32-bit value, no
  identifier is returned: the increment throws. And for the object \<open>{"toString": null}\<close>
  no identifier is returned either: the conversion to a string throws.
\<close>

theorem generateRequestId_lowercase_c:
  "map_option fst (generateRequestId (Some (JStr ''c'')) ''20250903'' no_counters)
     = Some ''C_03092025_001''
   \<and> map_option fst (generateRequestId (Some (JArr [JStr ''c''])) ''20250903'' no_counters)
     = Some ''C_03092025_001''
   \<and> generateRequestId (Some (JStr ''N'')) ''20250903'' full_counters = None
   \<and> generateRequestId (Some (JObj [(''toString'', JNull)])) ''20250903'' no_counters = None"
proof -
  have p: "ncType_prefix (Some (JStr ''c'')) = Some (CHR ''C'')"
    "ncType_prefix (Some (JArr [JStr ''c''])) = Some (CHR ''C'')"
    by (simp_all add: ncType_prefix_C)
  have n: "ncType_prefix (Some (JStr ''N'')) = Some (CHR ''N'')"
    by (simp add: ncType_prefix_def toUpperCase_def toUpperCase_char_def)
  have o: "ncType_prefix (Some (JObj [(''toString'', JNull)])) = None"
    by (simp add: ncType_prefix_None)
  have s: "padStart 3 (CHR ''0'') (String_int 1) = ''001''"
    by (simp add: padStart_def String_int_def String_nat_small digit_char_def numeral_2_eq_2)
  have d: "slice 6 8 ''20250903'' @ slice 4 6 ''20250903'' @ slice 0 4 ''20250903'' = ''03092025''"
    by (simp add: slice_def)
  show ?thesis
    by (simp add: generateRequestId_def merge_counter_def no_counters_def full_counters_def
        Let_def p n o s d)
qed

section \<open>The display-time diff\<close>

lemma sortedVersions_perm: "mset (sortedVersions versions) = mset versions"
  by (simp add: sortedVersions_def)

lemma sortedVersions_desc:
  "sortedVersions versions = a # b # rest \<Longrightarrow>
     d_version b \<le> d_version a \<and> (\<forall>r\<in>set rest. d_version r \<le> d_version b)"
proof -
  assume eq: "sortedVersions versions = a # b # rest"
  have "sorted (map (\<lambda>r. - d_version r) (sortedVersions versions))"
    unfolding sortedVersions_def by (rule sorted_sort_key)
  with eq show ?thesis
    by auto
qed

text \<open>
  Claim C9. With fewer than two stored versions the diff is the empty result
  (\<open>hasChanges = false\<close>, no changes). With two or more, the versions are arranged by
  descending version number and the diff is \<open>compareObjects(prev, latest, type)\<close> for the
  first two of that arrangement: \<open>latest\<close> carries the highest version number and is
  the new side, \<open>prev\<close> the highest of the remaining ones and is the old side.
\<close>

theorem diff_compares_two_latest:
  "(length versions < 2 \<longrightarrow>
      diff compareObjects versions ty = \<lparr>hasChanges = False, changes = [], changedFields = []\<rparr>)
   \<and> (2 \<le> length versions \<longrightarrow>
      (\<exists>latest prev rest.
          sortedVersions versions = latest # prev # rest
        \<and> mset versions = mset (latest # prev # rest)
        \<and> d_version prev \<le> d_version latest
        \<and> (\<forall>r\<in>set rest. d_version r \<le> d_version prev)
        \<and> diff compareObjects versions ty = compareObjects prev latest ty))"
proof (intro conjI impI)
  assume "length versions < 2"
  then have "length (sortedVersions versions) < 2"
    by (simp add: sortedVersions_def)
  then show "diff compareObjects versions ty = \<lparr>hasChanges = False, changes = [], changedFields = []\<rparr>"
    by (cases "sortedVersions versions" rule: list.exhaust; simp add: diff_def split: list.splits)
next
  assume "2 \<le> length versions"
  then have "2 \<le> length (sortedVersions versions)"
    by (simp add: sortedVersions_def)
  then obtain latest prev rest where eq: "sortedVersions versions = latest # prev # rest"
    by (cases "sortedVersions versions"; simp; rename_tac a as; case_tac as; simp)
  have "mset versions = mset (latest # prev # rest)"
    using sortedVersions_perm [of versions] eq by simp
  moreover have "diff compareObjects versions ty = compareObjects prev latest ty"
    using eq by (simp add: diff_def)
  ultimately show "\<exists>latest prev rest.
          sortedVersions versions = latest # prev # rest
        \<and> mset versions = mset (latest # prev # rest)
        \<and> d_version prev \<le> d_version latest
        \<and> (\<forall>r\<in>set rest. d_version r \<le> d_version prev)
        \<and> diff compareObjects versions ty = compareObjects prev latest ty"
    using eq sortedVersions_desc [OF eq] by blast
qed

theorem diff_compares_two_latest_witness:
  "diff sides [alpha_v1] Plant = \<lparr>hasChanges = False, changes = [], changedFields = []\<rparr>
   \<and> diff sides [alpha_v1, beta_v2] Plant = sides alpha_v1 beta_v2 Plant
   \<and> diff sides [beta_v2, alpha_v1] Plant = sides alpha_v1 beta_v2 Plant"
proof -
  have s1: "sortedVersions [alpha_v1, beta_v2] = [beta_v2, alpha_v1]"
    by (simp add: sortedVersions_def alpha_v1_def beta_v2_def)
  have s2: "sortedVersions [beta_v2, alpha_v1] = [beta_v2, alpha_v1]"
    by (simp add: sortedVersions_def alpha_v1_def beta_v2_def)
  have a: "diff sides [alpha_v1] Plant = \<lparr>hasChanges = False, changes = [], changedFields = []\<rparr>"
    using diff_compares_two_latest [of "[alpha_v1]" sides Plant] by simp
  have b: "diff sides [alpha_v1, beta_v2] Plant = sides alpha_v1 beta_v2 Plant"
    using diff_compares_two_latest [of "[alpha_v1, beta_v2]" sides Plant] unfolding s1 by auto
  have c: "diff sides [beta_v2, alpha_v1] Plant = sides alpha_v1 beta_v2 Plant"
    using diff_compares_two_latest [of "[beta_v2, alpha_v1]" sides Plant] unfolding s2 by auto
  from a b c show ?thesis by simp
qed

section \<open>The history log\<close>

lemma post_history_Inr:
  "post_history e b s = Inr s' \<Longrightarrow>
     \<exists>ac. hb_action b = Some ac \<and> \<not> falsy (hb_requestId b) \<and> \<not> falsy (hb_user b)
       \<and> \<not> has_history (or_else (hb_requestId b) []) (ISNULL (hb_timestamp b) (now e)) (HistoryLogs s)
       \<and> request_exists (or_else (hb_requestId b) []) s
       \<and> s' = s\<lparr>HistoryLogs := HistoryLogs s @
                  [\<lparr>h_requestId = or_else (hb_requestId b) [],
                    h_timestamp = ISNULL (hb_timestamp b) (now e), h_action = ac,
                    h_user = or_else (hb_user b) [], h_metadata = hb_metadata b\<rparr>]\<rparr>"
  by (auto simp: post_history_def Let_def split: option.splits if_splits)

lemma HistoryLogs_try_mail: "HistoryLogs (try_mail e m s) = HistoryLogs s"
  by (simp add: try_mail_def)

lemma post_requests_HistoryLogs:
  "post_requests e b s = Inr (rid, s') \<Longrightarrow> HistoryLogs s' = HistoryLogs s"
  by (auto simp: post_requests_def Let_def HistoryLogs_try_mail
      split: option.splits if_splits prod.splits)

lemma patch_status_HistoryLogs: "patch_status e rid st s = Inr s' \<Longrightarrow> HistoryLogs s' = HistoryLogs s"
  by (auto simp: patch_status_def Let_def HistoryLogs_try_mail split: option.splits)

lemma plant_details_upsert_HistoryLogs:
  "plant_details_upsert cols d s = Inr s' \<Longrightarrow> HistoryLogs s' = HistoryLogs s"
  by (auto simp: plant_details_upsert_def Let_def split: option.splits if_splits)

lemma post_plant_details_HistoryLogs:
  "post_plant_details e d s = Inr s' \<Longrightarrow> HistoryLogs s' = HistoryLogs s"
  by (cases "plant_details_upsert plant_columns d s")
     (auto simp: post_plant_details_def HistoryLogs_try_mail dest: plant_details_upsert_HistoryLogs)

lemma post_approvals_HistoryLogs: "post_approvals e b s = Inr s' \<Longrightarrow> HistoryLogs s' = HistoryLogs s"
  by (auto simp: post_approvals_def Let_def split: option.splits if_splits)

lemma apply_call_HistoryLogs:
  "\<exists>rows. HistoryLogs (apply_call c s) = HistoryLogs s @ rows \<and> length rows \<le> 1"
proof (cases c)
  case (Post_requests e b)
  then show ?thesis
    by (cases "post_requests e b s")
       (auto simp: after_def dest: post_requests_HistoryLogs)
next
  case (Patch_status e rid st)
  then show ?thesis
    by (cases "patch_status e rid st s") (auto simp: after_def dest: patch_status_HistoryLogs)
next
  case (Post_plant_details e d)
  then show ?thesis
    by (cases "post_plant_details e d s") (auto simp: after_def dest: post_plant_details_HistoryLogs)
next
  case (Post_approvals e b)
  then show ?thesis
    by (cases "post_approvals e b s") (auto simp: after_def dest: post_approvals_HistoryLogs)
next
  case (Post_history e b)
  then show ?thesis
    by (cases "post_history e b s") (auto simp: after_def dest!: post_history_Inr)
qed

lemma run_HistoryLogs: "\<exists>rows. HistoryLogs (run cs s) = HistoryLogs s @ rows"
proof (induction cs arbitrary: s)
  case Nil
  show ?case by simp
next
  case (Cons c cs)
  from apply_call_HistoryLogs [of c s] obtain r1 where
    "HistoryLogs (apply_call c s) = HistoryLogs s @ r1" by blast
  moreover from Cons [of "apply_call c s"] obtain r2 where
    "HistoryLogs (run cs (apply_call c s)) = HistoryLogs (apply_call c s) @ r2" by blast
  ultimately have "HistoryLogs (run (c # cs) s) = HistoryLogs s @ (r1 @ r2)"
    by simp
  then show ?case by blast
qed

lemma has_history_append: "has_history rid t rows \<Longrightarrow> has_history rid t (rows @ later)"
  by (auto simp: has_history_def)

lemma post_history_key_present:
  assumes "has_history (or_else (hb_requestId b) []) (ISNULL (hb_timestamp b) (now e)) (HistoryLogs s)"
  shows "(\<exists>f. post_history e b s = Inl f)
       \<and> (hb_action b \<noteq> None \<and> \<not> falsy (hb_requestId b) \<and> \<not> falsy (hb_user b) \<longrightarrow>
            post_history e b s = Inl (Fail 500 ''Failed to save history log''))"
  using assms by (auto simp: post_history_def Let_def split: option.splits)

text \<open>
  Claim C10. No call changes or removes a stored row of the history log: each call
  leaves the log as it was, with at most one row added at the end. An append whose key,
  the request id with the timestamp of the call (the server clock when the body has
  none), is the key of a stored row does not succeed: it is answered with an error,
  which is the 500 of the failed insert whenever the body passes the handler's own
  check. So once an append has succeeded, an append for the same request id with the same
  millisecond timestamp fails, whatever calls were made in between, and the first row
  is the only one with that key.
\<close>

theorem history_insert_only_key_collision:
  assumes "post_history e1 b1 s = Inr s1"
    and "hb_requestId b2 = hb_requestId b1"
    and "ISNULL (hb_timestamp b2) (now e2) = ISNULL (hb_timestamp b1) (now e1)"
  shows "(\<exists>new. HistoryLogs s1 = HistoryLogs s @ [new]
              \<and> h_requestId new = or_else (hb_requestId b1) []
              \<and> h_timestamp new = ISNULL (hb_timestamp b1) (now e1))
       \<and> (\<exists>rows. HistoryLogs (apply_call c s0) = HistoryLogs s0 @ rows \<and> length rows \<le> 1)
       \<and> (\<exists>rows. HistoryLogs (run cs s1) = HistoryLogs s1 @ rows)
       \<and> (has_history (or_else (hb_requestId b) []) (ISNULL (hb_timestamp b) (now e)) (HistoryLogs s0)
            \<longrightarrow> (\<exists>f. post_history e b s0 = Inl f))
       \<and> (\<exists>f. post_history e2 b2 (run cs s1) = Inl f)
       \<and> (hb_action b2 \<noteq> None \<and> \<not> falsy (hb_user b2) \<longrightarrow>
            post_history e2 b2 (run cs s1) = Inl (Fail 500 ''Failed to save history log''))"
proof -
  from post_history_Inr [OF assms(1)] obtain ac where
    ok: "\<not> falsy (hb_requestId b1)"
    and s1: "s1 = s\<lparr>HistoryLogs := HistoryLogs s @
                  [\<lparr>h_requestId = or_else (hb_requestId b1) [],
                    h_timestamp = ISNULL (hb_timestamp b1) (now e1), h_action = ac,
                    h_user = or_else (hb_user b1) [], h_metadata = hb_metadata b1\<rparr>]\<rparr>"
    by blast
  have k1: "has_history (or_else (hb_requestId b2) []) (ISNULL (hb_timestamp b2) (now e2)) (HistoryLogs s1)"
    using assms(2,3) by (simp add: s1 has_history_def)
  from run_HistoryLogs [of cs s1] obtain rows where
    rows: "HistoryLogs (run cs s1) = HistoryLogs s1 @ rows" by blast
  have key: "has_history (or_else (hb_requestId b2) []) (ISNULL (hb_timestamp b2) (now e2))
               (HistoryLogs (run cs s1))"
    unfolding rows using k1 by (rule has_history_append)
  have first: "\<exists>new. HistoryLogs s1 = HistoryLogs s @ [new]
              \<and> h_requestId new = or_else (hb_requestId b1) []
              \<and> h_timestamp new = ISNULL (hb_timestamp b1) (now e1)"
    by (simp add: s1)
  have any: "has_history (or_else (hb_requestId b) []) (ISNULL (hb_timestamp b) (now e)) (HistoryLogs s0)
            \<longrightarrow> (\<exists>f. post_history e b s0 = Inl f)"
    using post_history_key_present [of b e s0] by blast
  have second: "\<exists>f. post_history e2 b2 (run cs s1) = Inl f"
    using post_history_key_present [OF key] by blast
  have third: "hb_action b2 \<noteq> None \<and> \<not> falsy (hb_user b2) \<longrightarrow>
            post_history e2 b2 (run cs s1) = Inl (Fail 500 ''Failed to save history log'')"
    using post_history_key_present [OF key] ok assms(2) by simp
  from first apply_call_HistoryLogs [of c s0] run_HistoryLogs [of cs s1] any second third
  show ?thesis by blast
qed

theorem history_insert_only_key_collision_witness:
  "post_history env0 history_create server1 = Inr server1_logged
   \<and> post_history env0 history_edit
        (run [Post_approvals env0 reject_by_siva, Post_history env0 history_later] server1_logged)
      = Inl (Fail 500 ''Failed to save history log'')"
proof -
  have h1: "post_history env0 history_create server1 = Inr server1_logged"
    by (simp add: post_history_def history_create_def server1_def server1_logged_def env0_def
        request1_def falsy_def or_else_def ISNULL_def has_history_def request_exists_def)
  have h2: "hb_requestId history_edit = hb_requestId history_create"
    by (simp add: history_edit_def history_create_def)
  have h3: "ISNULL (hb_timestamp history_edit) (now env0) = ISNULL (hb_timestamp history_create) (now env0)"
    by (simp add: history_edit_def history_create_def)
  have v: "hb_action history_edit \<noteq> None \<and> \<not> falsy (hb_user history_edit)"
    by (simp add: history_edit_def falsy_def)
  from history_insert_only_key_collision [OF h1 h2 h3,
      of _ _ "[Post_approvals env0 reject_by_siva, Post_history env0 history_later]"] v
  have "post_history env0 history_edit
        (run [Post_approvals env0 reject_by_siva, Post_history env0 history_later] server1_logged)
      = Inl (Fail 500 ''Failed to save history log'')"
    by blast
  with h1 show ?thesis by simp
qed

section \<open>The approval ledger\<close>

lemma upsert_approval_keys:
  "map approval_key (upsert_approval new rows) =
     (if approval_key new \<in> set (map approval_key rows) then map approval_key rows
      else map approval_key rows @ [approval_key new])"
  by (auto simp: upsert_approval_def has_approval_def approval_key_def)

lemma upsert_approval_distinct:
  "distinct (map approval_key rows) \<Longrightarrow> distinct (map approval_key (upsert_approval new rows))"
  by (simp add: upsert_approval_keys)

lemma upsert_approval_length:
  "approval_key new \<in> set (map approval_key rows) \<Longrightarrow>
     length (upsert_approval new rows) = length rows"
  by (auto simp: upsert_approval_def has_approval_def approval_key_def)

lemma upsert_approval_has: "approval_key new \<in> set (map approval_key (upsert_approval new rows))"
  by (simp add: upsert_approval_keys)

lemma filter_key_absent:
  "k \<notin> set (map approval_key rows) \<Longrightarrow> filter (\<lambda>r. approval_key r = k) rows = []"
  by (induction rows) auto

lemma filter_key_update:
  "distinct (map approval_key rows) \<Longrightarrow> approval_key new \<in> set (map approval_key rows) \<Longrightarrow>
     filter (\<lambda>r. approval_key r = approval_key new)
       (map (\<lambda>r. if approval_key r = approval_key new then new else r) rows) = [new]"
proof (induction rows)
  case Nil
  then show ?case by simp
next
  case (Cons r rows)
  show ?case
  proof (cases "approval_key r = approval_key new")
    case True
    with Cons.prems have "approval_key new \<notin> set (map approval_key rows)"
      by auto
    then have "filter (\<lambda>r. approval_key r = approval_key new) rows = []"
      by (rule filter_key_absent)
    moreover have "map (\<lambda>r. if approval_key r = approval_key new then new else r) rows = rows"
      using \<open>approval_key new \<notin> set (map approval_key rows)\<close> by (induction rows) auto
    ultimately show ?thesis using True by simp
  next
    case False
    with Cons show ?thesis by auto
  qed
qed

lemma upsert_approval_update_eq:
  "approval_key new \<in> set (map approval_key rows) \<Longrightarrow>
     upsert_approval new rows = map (\<lambda>r. if approval_key r = approval_key new then new else r) rows"
  by (auto simp: upsert_approval_def has_approval_def approval_key_def)

lemma upsert_approval_filter:
  assumes "distinct (map approval_key rows)"
  shows "filter (\<lambda>r. approval_key r = approval_key new) (upsert_approval new rows) = [new]"
proof (cases "approval_key new \<in> set (map approval_key rows)")
  case True
  then show ?thesis
    using filter_key_update [OF assms True] by (simp add: upsert_approval_update_eq)
next
  case False
  then have "upsert_approval new rows = rows @ [new]"
    by (auto simp: upsert_approval_def has_approval_def approval_key_def)
  then show ?thesis
    using filter_key_absent [OF False] by simp
qed

lemma upsert_approval_mem: "new \<in> set (upsert_approval new rows)"
proof (cases "approval_key new \<in> set (map approval_key rows)")
  case True
  then obtain r where "r \<in> set rows" and "approval_key r = approval_key new"
    by auto
  then have "new \<in> set (map (\<lambda>r. if approval_key r = approval_key new then new else r) rows)"
    by force
  with True show ?thesis
    by (simp only: upsert_approval_update_eq)
next
  case False
  then show ?thesis
    by (auto simp: upsert_approval_def has_approval_def approval_key_def)
qed

lemma post_approvals_Inr:
  "post_approvals e b s = Inr s' \<Longrightarrow>
     \<exists>ro de. ab_role b = Some ro \<and> ab_decision b = Some de
       \<and> \<not> falsy (ab_requestId b) \<and> \<not> falsy (ab_approverEmail b)
       \<and> s' = s\<lparr>Approvals := upsert_approval
                  \<lparr>a_requestId = or_else (ab_requestId b) [],
                   a_approverEmail = or_else (ab_approverEmail b) [],
                   a_role = ro, a_decision = de, a_comment = or_null (ab_comment b),
                   a_attachmentId = or_null (ab_attachmentId b),
                   a_timestamp = ISNULL (ab_timestamp b) (now e)\<rparr> (Approvals s)\<rparr>"
  by (auto simp: post_approvals_def Let_def split: option.splits if_splits)

text \<open>
  Claim C7. When two successive calls that record a decision for the same request id and
  approver e-mail both succeed, the ledger holds exactly one row for that pair, and its
  role, decision, comment, attachment id and timestamp are those of the second call (an
  empty comment or attachment id is stored as \<open>NULL\<close>, a missing timestamp is the server
  clock of that call). The second call adds no row.
\<close>

theorem recordDecision_last_write_wins:
  assumes "distinct (map (\<lambda>r. (a_requestId r, a_approverEmail r)) (Approvals s))"
    and "post_approvals e1 b1 s = Inr s1"
    and "post_approvals e2 b2 s1 = Inr s2"
    and "ab_requestId b2 = ab_requestId b1"
    and "ab_approverEmail b2 = ab_approverEmail b1"
  shows "\<exists>ro de.
           ab_role b2 = Some ro \<and> ab_decision b2 = Some de
         \<and> filter (\<lambda>r. a_requestId r = or_else (ab_requestId b1) []
                        \<and> a_approverEmail r = or_else (ab_approverEmail b1) []) (Approvals s2)
             = [\<lparr>a_requestId = or_else (ab_requestId b1) [],
                 a_approverEmail = or_else (ab_approverEmail b1) [],
                 a_role = ro, a_decision = de, a_comment = or_null (ab_comment b2),
                 a_attachmentId = or_null (ab_attachmentId b2),
                 a_timestamp = ISNULL (ab_timestamp b2) (now e2)\<rparr>]
         \<and> length (Approvals s2) = length (Approvals s1)"
proof -
  from post_approvals_Inr [OF assms(2)] obtain ro1 de1 where
    s1: "s1 = s\<lparr>Approvals := upsert_approval
                  \<lparr>a_requestId = or_else (ab_requestId b1) [],
                   a_approverEmail = or_else (ab_approverEmail b1) [],
                   a_role = ro1, a_decision = de1, a_comment = or_null (ab_comment b1),
                   a_attachmentId = or_null (ab_attachmentId b1),
                   a_timestamp = ISNULL (ab_timestamp b1) (now e1)\<rparr> (Approvals s)\<rparr>"
    by blast
  from post_approvals_Inr [OF assms(3)] obtain ro de where
    rd: "ab_role b2 = Some ro" "ab_decision b2 = Some de"
    and s2: "s2 = s1\<lparr>Approvals := upsert_approval
                  \<lparr>a_requestId = or_else (ab_requestId b2) [],
                   a_approverEmail = or_else (ab_approverEmail b2) [],
                   a_role = ro, a_decision = de, a_comment = or_null (ab_comment b2),
                   a_attachmentId = or_null (ab_attachmentId b2),
                   a_timestamp = ISNULL (ab_timestamp b2) (now e2)\<rparr> (Approvals s1)\<rparr>"
    by blast
  define new1 where "new1 = \<lparr>a_requestId = or_else (ab_requestId b1) [],
                   a_approverEmail = or_else (ab_approverEmail b1) [],
                   a_role = ro1, a_decision = de1, a_comment = or_null (ab_comment b1),
                   a_attachmentId = or_null (ab_attachmentId b1),
                   a_timestamp = ISNULL (ab_timestamp b1) (now e1)\<rparr>"
  define new2 where "new2 = \<lparr>a_requestId = or_else (ab_requestId b1) [],
                   a_approverEmail = or_else (ab_approverEmail b1) [],
                   a_role = ro, a_decision = de, a_comment = or_null (ab_comment b2),
                   a_attachmentId = or_null (ab_attachmentId b2),
                   a_timestamp = ISNULL (ab_timestamp b2) (now e2)\<rparr>"
  have k: "approval_key new2 = approval_key new1"
    by (simp add: new1_def new2_def approval_key_def)
  have A1: "Approvals s1 = upsert_approval new1 (Approvals s)"
    by (simp add: s1 new1_def)
  have A2: "Approvals s2 = upsert_approval new2 (Approvals s1)"
    using assms(4,5) by (simp add: s2 new2_def)
  have d0: "distinct (map approval_key (Approvals s))"
    using assms(1) by (simp add: approval_key_def [abs_def])
  have d1: "distinct (map approval_key (Approvals s1))"
    unfolding A1 using d0 by (rule upsert_approval_distinct)
  have in1: "approval_key new2 \<in> set (map approval_key (Approvals s1))"
    unfolding A1 k by (rule upsert_approval_has)
  have "filter (\<lambda>r. approval_key r = approval_key new2) (Approvals s2) = [new2]"
    unfolding A2 using d1 by (rule upsert_approval_filter)
  then have f: "filter (\<lambda>r. a_requestId r = or_else (ab_requestId b1) []
                        \<and> a_approverEmail r = or_else (ab_approverEmail b1) []) (Approvals s2) = [new2]"
    by (simp add: approval_key_def new2_def)
  have l: "length (Approvals s2) = length (Approvals s1)"
    unfolding A2 using in1 by (rule upsert_approval_length)
  from rd f l show ?thesis
    unfolding new2_def by blast
qed

theorem recordDecision_last_write_wins_witness:
  "post_approvals env0 reject_by_siva server1 = Inr server1_rejected
   \<and> post_approvals env0 approve_by_siva server1_rejected = Inr server1_approved
   \<and> filter (\<lambda>r. a_requestId r = ''N_01012025_001'' \<and> a_approverEmail r = ''siva@pel.com'')
        (Approvals server1_approved)
      = [\<lparr>a_requestId = ''N_01012025_001'', a_approverEmail = ''siva@pel.com'', a_role = Siva,
          a_decision = Approve, a_comment = Some ''ok now'', a_attachmentId = Some ''att-7'',
          a_timestamp = 1500\<rparr>]"
proof -
  have h0: "distinct (map (\<lambda>r. (a_requestId r, a_approverEmail r)) (Approvals server1))"
    by (simp add: server1_def)
  have h1: "post_approvals env0 reject_by_siva server1 = Inr server1_rejected"
    by (simp add: post_approvals_def reject_by_siva_def server1_def server1_rejected_def env0_def
        request1_def falsy_def or_else_def or_null_def ISNULL_def has_approval_def
        request_exists_def upsert_approval_def)
  have h2: "post_approvals env0 approve_by_siva server1_rejected = Inr server1_approved"
    by (simp add: post_approvals_def approve_by_siva_def server1_def server1_rejected_def
        server1_approved_def env0_def request1_def falsy_def or_else_def or_null_def ISNULL_def
        has_approval_def request_exists_def upsert_approval_def)
  have h3: "ab_requestId approve_by_siva = ab_requestId reject_by_siva"
    and h4: "ab_approverEmail approve_by_siva = ab_approverEmail reject_by_siva"
    by (simp_all add: approve_by_siva_def reject_by_siva_def)
  from recordDecision_last_write_wins [OF h0 h1 h2 h3 h4]
  have "filter (\<lambda>r. a_requestId r = ''N_01012025_001'' \<and> a_approverEmail r = ''siva@pel.com'')
        (Approvals server1_approved)
      = [\<lparr>a_requestId = ''N_01012025_001'', a_approverEmail = ''siva@pel.com'', a_role = Siva,
          a_decision = Approve, a_comment = Some ''ok now'', a_attachmentId = Some ''att-7'',
          a_timestamp = 1500\<rparr>]"
    by (auto simp: approve_by_siva_def reject_by_siva_def env0_def or_else_def or_null_def
        falsy_def ISNULL_def)
  with h1 h2 show ?thesis by simp
qed

section \<open>Versioned details\<close>


lemma beta_form_bound:
  "all_bound plant_columns (map (\<lambda>(k, v). (k, Some v)) beta_form)"
  "all_bound server_cjs_plant_columns (map (\<lambda>(k, v). (k, Some v)) beta_form)"
  by (simp_all add: all_bound_def plant_columns_def server_cjs_plant_columns_def alpha_form_def
      beta_form_def)

lemma written_named: "k \<in> set columns \<Longrightarrow> written columns es k old = bound_value es k"
  by (simp add: written_def)

lemma inserted_cols:
  "set table_columns \<subseteq> set columns \<Longrightarrow>
     map (\<lambda>k. (k, written columns es k None)) table_columns
       = map (\<lambda>k. (k, bound_value es k)) table_columns"
  by (auto simp: written_def)





lemma beta_form_cols:
  "map (\<lambda>k. (k, bound_value (map (\<lambda>(k, v). (k, Some v)) beta_form) k)) plant_columns
     = map (\<lambda>(k, v). (k, Some v)) beta_form"
  by (simp add: plant_columns_def alpha_form_def beta_form_def bound_value_def)

lemma form_required:
  "\<not> entry_missing (map (\<lambda>(k, v). (k, Some v)) alpha_form) ''companyCode''"
  "\<not> entry_missing (map (\<lambda>(k, v). (k, Some v)) alpha_form) ''plantCode''"
  "\<not> entry_missing (map (\<lambda>(k, v). (k, Some v)) alpha_form) ''nameOfPlant''"
  "\<not> entry_missing (map (\<lambda>(k, v). (k, Some v)) beta_form) ''companyCode''"
  "\<not> entry_missing (map (\<lambda>(k, v). (k, Some v)) beta_form) ''plantCode''"
  "\<not> entry_missing (map (\<lambda>(k, v). (k, Some v)) beta_form) ''nameOfPlant''"
  by (simp_all add: entry_missing_def alpha_form_def beta_form_def)

lemma table_columns:
  "set server_cjs_plant_columns \<subseteq> set DDL_plant_columns"
  "set DDL_plant_columns \<subseteq> set server_cjs_plant_columns"
  "\<not> set plant_columns \<subseteq> set DDL_plant_columns"
  by (simp_all add: server_cjs_plant_columns_def plant_columns_def DDL_plant_columns_def)













section \<open>The request row\<close>

lemma Requests_try_mail: "Requests (try_mail e m s) = Requests s"
  by (simp add: try_mail_def)

lemma post_requests_Inr:
  "post_requests e b s = Inr (rid, s') \<Longrightarrow>
     \<exists>ty st. rb_type b = Some ty \<and> rb_status b = Some st
       \<and> Requests s' = upsert_request (now e) rid ty (or_else (rb_title b) []) st
                          (or_else (rb_createdBy b) []) (rb_createdAt b) (rb_updatedAt b) (Requests s)"
  by (auto simp: post_requests_def Let_def Requests_try_mail split: option.splits if_splits prod.splits)

lemma upsert_request_types:
  "map (\<lambda>r. (r_requestId r, r_type r)) (upsert_request t rid ty ti st cb ca ua rows) =
     (if rid \<in> set (map r_requestId rows)
      then map (\<lambda>r. (r_requestId r, if r_requestId r = rid then ty else r_type r)) rows
      else map (\<lambda>r. (r_requestId r, r_type r)) rows @ [(rid, ty)])"
  unfolding upsert_request_def by (induction rows) auto

lemma patch_status_types:
  "patch_status e rid st s = Inr s' \<Longrightarrow>
     map (\<lambda>r. (r_requestId r, r_type r)) (Requests s') = map (\<lambda>r. (r_requestId r, r_type r)) (Requests s)"
proof -
  assume a: "patch_status e rid st s = Inr s'"
  then obtain x where "st = Some x"
    and "s' = try_mail e ''sendStageEmail failed:''
                (s\<lparr>Requests := map (\<lambda>r. if r_requestId r = rid
                                             then r\<lparr>r_status := x, r_updatedAt := now e\<rparr> else r)
                                     (Requests s)\<rparr>)"
    by (auto simp: patch_status_def Let_def split: option.splits)
  then have "Requests s' = map (\<lambda>r. if r_requestId r = rid
                                       then r\<lparr>r_status := x, r_updatedAt := now e\<rparr> else r) (Requests s)"
    by (simp add: Requests_try_mail)
  then show ?thesis
    by (simp add: comp_def if_distrib cong: if_cong)
qed

lemma plant_details_upsert_Requests:
  "plant_details_upsert cols d s = Inr s' \<Longrightarrow> Requests s' = Requests s"
  by (auto simp: plant_details_upsert_def Let_def split: option.splits if_splits)

lemma post_plant_details_Requests: "post_plant_details e d s = Inr s' \<Longrightarrow> Requests s' = Requests s"
  by (cases "plant_details_upsert plant_columns d s")
     (auto simp: post_plant_details_def Requests_try_mail dest: plant_details_upsert_Requests)

lemma post_approvals_Requests: "post_approvals e b s = Inr s' \<Longrightarrow> Requests s' = Requests s"
  by (auto simp: post_approvals_def Let_def split: option.splits if_splits)

lemma post_history_Requests: "post_history e b s = Inr s' \<Longrightarrow> Requests s' = Requests s"
  by (auto simp: post_history_def Let_def split: option.splits if_splits)

text \<open>
  Claim C5 as stated fails: a save of an existing request id that names the other type
  is answered ok and the stored type is the new one.
\<close>

theorem save_overwrites_type:
  "post_requests env0 retype_body server1 = Inr (''N_01012025_001'', server1_retyped)
   \<and> stored_types server1 = [(''N_01012025_001'', Plant)]
   \<and> stored_types server1_retyped = [(''N_01012025_001'', Company)]"
  by (simp add: post_requests_def retype_body_def server1_def server1_retyped_def env0_def
      request1_def falsy_def or_else_def ISNULL_def select_status_def upsert_request_def
      stored_types_def)

text \<open>
  Claim C5, as the code has it. A save (\<open>POST /api/requests\<close>) that succeeds stores the
  type it submits: for an existing request id the stored type becomes the submitted one
  (so it is unchanged when the same type is resubmitted), every other request keeps its
  type, and a new id is added with the submitted type. A status update, a details write,
  an approval and a history append leave the type of every request as it was.
\<close>

theorem type_set_only_by_save:
  "(post_requests e b s = Inr (rid, s1) \<longrightarrow>
      (\<exists>ty. rb_type b = Some ty
        \<and> map (\<lambda>r. (r_requestId r, r_type r)) (Requests s1) =
            (if rid \<in> set (map r_requestId (Requests s))
             then map (\<lambda>r. (r_requestId r, if r_requestId r = rid then ty else r_type r)) (Requests s)
             else map (\<lambda>r. (r_requestId r, r_type r)) (Requests s) @ [(rid, ty)])))
   \<and> (patch_status e rid2 st s = Inr s2 \<longrightarrow>
        map (\<lambda>r. (r_requestId r, r_type r)) (Requests s2) = map (\<lambda>r. (r_requestId r, r_type r)) (Requests s))
   \<and> (post_plant_details e d s = Inr s3 \<longrightarrow> Requests s3 = Requests s)
   \<and> (post_approvals e a s = Inr s4 \<longrightarrow> Requests s4 = Requests s)
   \<and> (post_history e h s = Inr s5 \<longrightarrow> Requests s5 = Requests s)"
proof (intro conjI impI)
  assume "post_requests e b s = Inr (rid, s1)"
  from post_requests_Inr [OF this] obtain ty st where
    "rb_type b = Some ty"
    "Requests s1 = upsert_request (now e) rid ty (or_else (rb_title b) []) st
                          (or_else (rb_createdBy b) []) (rb_createdAt b) (rb_updatedAt b) (Requests s)"
    by blast
  then show "\<exists>ty. rb_type b = Some ty
        \<and> map (\<lambda>r. (r_requestId r, r_type r)) (Requests s1) =
            (if rid \<in> set (map r_requestId (Requests s))
             then map (\<lambda>r. (r_requestId r, if r_requestId r = rid then ty else r_type r)) (Requests s)
             else map (\<lambda>r. (r_requestId r, r_type r)) (Requests s) @ [(rid, ty)])"
    by (simp only: upsert_request_types) simp
qed (rule patch_status_types post_plant_details_Requests post_approvals_Requests
      post_history_Requests, assumption)+

theorem type_set_only_by_save_witness:
  "post_requests env0 same_type_body server1 = Inr (''N_01012025_001'', server1_resaved)
   \<and> stored_types server1_resaved = stored_types server1
   \<and> post_history env0 history_create server1 = Inr server1_logged
   \<and> Requests server1_logged = Requests server1"
proof -
  have h1: "post_requests env0 same_type_body server1 = Inr (''N_01012025_001'', server1_resaved)"
    by (simp add: post_requests_def same_type_body_def retype_body_def server1_def
        server1_resaved_def env0_def request1_def falsy_def or_else_def ISNULL_def
        select_status_def upsert_request_def)
  have h2: "post_history env0 history_create server1 = Inr server1_logged"
    by (simp add: post_history_def history_create_def server1_def server1_logged_def env0_def
        request1_def falsy_def or_else_def ISNULL_def has_history_def request_exists_def)
  note t = type_set_only_by_save [of env0 same_type_body server1 "''N_01012025_001''" server1_resaved
      _ _ _ _ _ _ _ history_create server1_logged]
  from t h1 have "\<exists>ty. rb_type same_type_body = Some ty
        \<and> map (\<lambda>r. (r_requestId r, r_type r)) (Requests server1_resaved) =
            (if ''N_01012025_001'' \<in> set (map r_requestId (Requests server1))
             then map (\<lambda>r. (r_requestId r, if r_requestId r = ''N_01012025_001'' then ty else r_type r))
                    (Requests server1)
             else map (\<lambda>r. (r_requestId r, r_type r)) (Requests server1) @ [(''N_01012025_001'', ty)])"
    by blast
  then have a: "stored_types server1_resaved = stored_types server1"
    by (auto simp: stored_types_def same_type_body_def retype_body_def server1_def request1_def)
  from t h2 have b: "Requests server1_logged = Requests server1"
    by blast
  from h1 h2 a b show ?thesis by simp
qed

section \<open>Decisions in the approval dashboard\<close>

lemma strip_Nil: "strip ws [] = []"
proof -
  have "find (\<lambda>w. w \<noteq> [] \<and> take (length w) [] = w) ws = None"
    by (auto simp: find_None_iff)
  then show ?thesis
    by (subst strip.simps) simp
qed

lemma trim_Nil: "trim [] = []"
  by (simp add: trim_def trimStart_def trimEnd_def strip_Nil)

lemma strip_decomp: "\<exists>pre. set pre \<subseteq> set ws \<and> s = concat pre @ strip ws s"
proof (induction ws s rule: strip.induct)
  case (1 ws s)
  show ?case
  proof (cases "find (\<lambda>w. w \<noteq> [] \<and> take (length w) s = w) ws")
    case None
    then have "strip ws s = s"
      by (subst strip.simps) simp
    then have "set [] \<subseteq> set ws \<and> s = concat [] @ strip ws s"
      by simp
    then show ?thesis by blast
  next
    case (Some w)
    then have w: "w \<in> set ws" "take (length w) s = w"
      by (auto simp: find_Some_iff)
    from 1 [OF Some] obtain pre where pre: "set pre \<subseteq> set ws"
      "drop (length w) s = concat pre @ strip ws (drop (length w) s)"
      by blast
    have st: "strip ws s = strip ws (drop (length w) s)"
      using Some by (subst strip.simps) simp
    have "s = take (length w) s @ drop (length w) s"
      by simp
    also have "\<dots> = w @ concat pre @ strip ws (drop (length w) s)"
      using w pre by simp
    finally have "s = concat (w # pre) @ strip ws s"
      by (simp add: st)
    moreover have "set (w # pre) \<subseteq> set ws"
      using w pre by simp
    ultimately show ?thesis by blast
  qed
qed

lemma white_space_prefix_free:
  "\<forall>w\<in>set white_space. \<forall>w'\<in>set white_space. take (length w') w = w' \<longrightarrow> w' = w"
  by code_simp

lemma white_space_not_Nil: "[] \<notin> set white_space"
  by (simp add: white_space_def)

lemma strip_white_space:
  assumes "w \<in> set white_space"
  shows "strip white_space (w @ t) = strip white_space t"
proof -
  have ne: "w \<noteq> []"
    using assms white_space_not_Nil by auto
  have "find (\<lambda>v. v \<noteq> [] \<and> take (length v) (w @ t) = v) white_space \<noteq> None"
    using assms ne by (auto simp: find_None_iff)
  then obtain v where f: "find (\<lambda>v. v \<noteq> [] \<and> take (length v) (w @ t) = v) white_space = Some v"
    by blast
  then have v: "v \<in> set white_space" "take (length v) (w @ t) = v"
    by (auto simp: find_Some_iff)
  have "v = w"
  proof (cases "length v \<le> length w")
    case True
    with v(2) have "take (length v) w = v" by simp
    with white_space_prefix_free assms v(1) show ?thesis by blast
  next
    case False
    then have "take (length w) v = take (length w) (take (length v) (w @ t))"
      using v(2) by simp
    also have "\<dots> = w"
      using False by (simp add: min_def)
    finally have "take (length w) v = w" .
    with white_space_prefix_free assms v(1) show ?thesis by blast
  qed
  with f show ?thesis
    by (subst strip.simps) simp
qed

lemma strip_concat: "set ws \<subseteq> set white_space \<Longrightarrow> strip white_space (concat ws) = []"
  by (induction ws) (simp_all add: strip_Nil strip_white_space)

text \<open>
  The strings \<open>trim\<close> empties are the sequences of white space characters, and no other.
\<close>

lemma trim_blank: "trim s = [] \<longleftrightarrow> (\<exists>ws. set ws \<subseteq> set white_space \<and> s = concat ws)"
proof
  assume a: "trim s = []"
  obtain pre where pre: "set pre \<subseteq> set white_space" "s = concat pre @ strip white_space s"
    using strip_decomp by blast
  obtain post where post: "set post \<subseteq> set (map rev white_space)"
    "rev (strip white_space s) = concat post @ strip (map rev white_space) (rev (strip white_space s))"
    using strip_decomp by blast
  from a have "strip (map rev white_space) (rev (strip white_space s)) = []"
    by (simp add: trim_def trimStart_def trimEnd_def)
  with post(2) have "rev (strip white_space s) = concat post"
    by simp
  then have "strip white_space s = rev (concat post)"
    by (metis rev_rev_ident)
  then have "strip white_space s = concat (map rev (rev post))"
    by (simp add: rev_concat)
  with pre(2) have "s = concat (pre @ map rev (rev post))"
    by simp
  moreover have "set (pre @ map rev (rev post)) \<subseteq> set white_space"
    using pre(1) post(1) by auto
  ultimately show "\<exists>ws. set ws \<subseteq> set white_space \<and> s = concat ws"
    by blast
next
  assume "\<exists>ws. set ws \<subseteq> set white_space \<and> s = concat ws"
  then have "strip white_space s = []"
    by (auto simp: strip_concat)
  then show "trim s = []"
    by (simp add: trim_def trimStart_def trimEnd_def strip_Nil)
qed

lemma trim_keeps:
  assumes "find (\<lambda>w. w \<noteq> [] \<and> take (length w) s = w) white_space = None"
    and "find (\<lambda>w. w \<noteq> [] \<and> take (length w) (rev s) = w) (map rev white_space) = None"
  shows "trim s = s"
proof -
  have "strip white_space s = s"
    using assms(1) by (subst strip.simps) simp
  moreover have "strip (map rev white_space) (rev s) = rev s"
    using assms(2) by (subst strip.simps) simp
  ultimately show ?thesis
    by (simp add: trim_def trimStart_def trimEnd_def)
qed

lemma not_blank_ok: "trim ''ok'' \<noteq> []" and not_blank_no: "trim ''no'' \<noteq> []"
  by code_simp+

text \<open>
  Claim C3 as stated fails at the endpoint that records a decision: a body without a
  comment, or with an empty one, is answered ok and the row is written with a
  \<open>NULL\<close> comment.
\<close>

theorem approval_without_comment_is_stored:
  "post_approvals env0 approve_no_comment server1 = Inr server1_no_comment
   \<and> post_approvals env0 approve_empty_comment server1 = Inr server1_no_comment
   \<and> map a_comment (Approvals server1_no_comment) = [None]"
  by (simp add: post_approvals_def approve_no_comment_def approve_empty_comment_def server1_def
      server1_no_comment_def env0_def request1_def falsy_def or_else_def or_null_def ISNULL_def
      has_approval_def request_exists_def upsert_approval_def)

lemma addApproval_row:
  assumes "addApproval e rid em ro de c att s = (res, s1)" and "Approvals s1 \<noteq> Approvals s"
    and "c \<noteq> []"
  shows "\<exists>r\<in>set (Approvals s1). a_requestId r = rid \<and> a_approverEmail r = em \<and> a_comment r = Some c"
proof -
  let ?b = "\<lparr>ab_requestId = Some rid, ab_approverEmail = Some em, ab_role = Some ro,
             ab_decision = Some de, ab_comment = Some c, ab_attachmentId = att,
             ab_timestamp = Some (client_now e)\<rparr>"
  show ?thesis
  proof (cases "post_approvals e ?b s")
    case (Inl f)
    with assms(1) have "s1 = s"
      by (simp add: addApproval_def http_def Let_def)
    with assms(2) show ?thesis by simp
  next
    case (Inr sA)
    from post_approvals_Inr [OF Inr] obtain ro' de' where
      ne: "\<not> falsy (ab_requestId ?b)" "\<not> falsy (ab_approverEmail ?b)"
      and sA: "sA = s\<lparr>Approvals := upsert_approval
                  \<lparr>a_requestId = or_else (ab_requestId ?b) [],
                   a_approverEmail = or_else (ab_approverEmail ?b) [],
                   a_role = ro', a_decision = de', a_comment = or_null (ab_comment ?b),
                   a_attachmentId = or_null (ab_attachmentId ?b),
                   a_timestamp = ISNULL (ab_timestamp ?b) (now e)\<rparr> (Approvals s)\<rparr>"
      by blast
    define new where "new = \<lparr>a_requestId = rid, a_approverEmail = em, a_role = ro', a_decision = de',
                   a_comment = Some c, a_attachmentId = or_null att,
                   a_timestamp = client_now e\<rparr>"
    have "Approvals sA = upsert_approval new (Approvals s)"
      using ne assms(3) by (simp add: sA new_def falsy_def or_else_def or_null_def ISNULL_def)
    then have mem: "new \<in> set (Approvals sA)"
      by (simp add: upsert_approval_mem)
    have "Approvals s1 = Approvals sA"
      using assms(1) Inr
      by (auto simp: addApproval_def http_def Let_def split: sum.splits dest: post_history_Inr)
    with mem have "new \<in> set (Approvals s1)" by simp
    then show ?thesis
      by (rule bexI [rotated]) (simp add: new_def)
  qed
qed

text \<open>
  Claim C3, as the code has it. The check is made by the dashboard, with
  \<open>String.prototype.trim\<close>: a comment is blank when it is empty or is a sequence of white
  space characters, those of Unicode (NBSP, the byte order mark, the spaces of category Zs)
  and the line terminators included. On a blank comment \<open>handleApproval\<close> shows the
  error \<open>Please add a comment for your decision\<close> and returns before any call to the
  server, so no approval row is written and the status is unchanged. Hence whenever
  \<open>handleApproval\<close> changes the ledger, the comment is not blank and the row of the
  approver for that request carries it.
\<close>

theorem handleApproval_blank_comment:
  "(trim approvalComment = [] \<longleftrightarrow>
      (\<exists>ws. set ws \<subseteq> set white_space \<and> approvalComment = concat ws))
   \<and> (trim approvalComment = [] \<longrightarrow>
      handleApproval e approver userRole approvalComment requests requestId de s =
        (Some (Toast ''Error'' ''Please add a comment for your decision''), s))
   \<and> (handleApproval e approver userRole approvalComment requests requestId de s = (shown, s')
        \<and> Approvals s' \<noteq> Approvals s \<longrightarrow>
          trim approvalComment \<noteq> []
        \<and> (\<exists>r\<in>set (Approvals s'). a_requestId r = requestId \<and> a_approverEmail r = approver
                                     \<and> a_comment r = Some approvalComment))"
proof (intro conjI impI)
  show "trim approvalComment = [] \<longleftrightarrow>
      (\<exists>ws. set ws \<subseteq> set white_space \<and> approvalComment = concat ws)"
    by (rule trim_blank)
next
  assume "trim approvalComment = []"
  then show "handleApproval e approver userRole approvalComment requests requestId de s =
        (Some (Toast ''Error'' ''Please add a comment for your decision''), s)"
    by (simp add: handleApproval_def)
next
  assume a: "handleApproval e approver userRole approvalComment requests requestId de s = (shown, s')
        \<and> Approvals s' \<noteq> Approvals s"
  show nb: "trim approvalComment \<noteq> []"
  proof
    assume "trim approvalComment = []"
    then have "handleApproval e approver userRole approvalComment requests requestId de s =
        (Some (Toast ''Error'' ''Please add a comment for your decision''), s)"
      by (simp add: handleApproval_def)
    with a show False by auto
  qed
  then have ne: "approvalComment \<noteq> []"
    using trim_Nil by auto
  obtain res s1 where ad: "addApproval e requestId approver userRole de approvalComment None s = (res, s1)"
    by (cases "addApproval e requestId approver userRole de approvalComment None s") blast
  have same: "Approvals s' = Approvals s1"
    using a nb ad
    by (auto simp: handleApproval_def updateRequestStatus_def http_def patch_status_def
        try_mail_def Let_def split: option.splits sum.splits if_splits)
  with a have "Approvals s1 \<noteq> Approvals s" by simp
  from addApproval_row [OF ad this ne] same
  show "\<exists>r\<in>set (Approvals s'). a_requestId r = requestId \<and> a_approverEmail r = approver
                                     \<and> a_comment r = Some approvalComment"
    by simp
qed

theorem handleApproval_blank_comment_witness:
  "handleApproval env0 ''sec@pel.com'' Secretary [CHR 0xC2, CHR 0xA0] [dash1] ''N_01012025_001''
       Approve server1 =
     (Some (Toast ''Error'' ''Please add a comment for your decision''), server1)
   \<and> handleApproval env0 ''sec@pel.com'' Secretary ''  '' [dash1] ''N_01012025_001'' Approve server1 =
     (Some (Toast ''Error'' ''Please add a comment for your decision''), server1)
   \<and> handleApproval env0 ''sec@pel.com'' Secretary [] [dash1] ''N_01012025_001'' Reject server1 =
     (Some (Toast ''Error'' ''Please add a comment for your decision''), server1)"
proof -
  have "set [[CHR 0xC2, CHR 0xA0]] \<subseteq> set white_space
          \<and> [CHR 0xC2, CHR 0xA0] = concat [[CHR 0xC2, CHR 0xA0]]"
    by (simp add: white_space_def)
  then have n: "\<exists>ws. set ws \<subseteq> set white_space \<and> [CHR 0xC2, CHR 0xA0] = concat ws"
    by (rule exI)
  have "set ['' '', '' ''] \<subseteq> set white_space \<and> ''  '' = concat ['' '', '' '']"
    by (simp add: white_space_def)
  then have a: "\<exists>ws. set ws \<subseteq> set white_space \<and> ''  '' = concat ws"
    by (rule exI)
  have "set [] \<subseteq> set white_space \<and> [] = concat ([] :: string list)"
    by simp
  then have b: "\<exists>ws. set ws \<subseteq> set white_space \<and> [] = concat ws"
    by (rule exI)
  from handleApproval_blank_comment [where approvalComment = "[CHR 0xC2, CHR 0xA0]" and e = env0
      and approver = "''sec@pel.com''" and userRole = Secretary and requests = "[dash1]"
      and requestId = "''N_01012025_001''" and de = Approve and s = server1] n
  have c: "handleApproval env0 ''sec@pel.com'' Secretary [CHR 0xC2, CHR 0xA0] [dash1] ''N_01012025_001''
       Approve server1 =
     (Some (Toast ''Error'' ''Please add a comment for your decision''), server1)"
    by blast
  from handleApproval_blank_comment [where approvalComment = "''  ''" and e = env0
      and approver = "''sec@pel.com''" and userRole = Secretary and requests = "[dash1]"
      and requestId = "''N_01012025_001''" and de = Approve and s = server1] a
  have d: "handleApproval env0 ''sec@pel.com'' Secretary ''  '' [dash1] ''N_01012025_001'' Approve server1 =
     (Some (Toast ''Error'' ''Please add a comment for your decision''), server1)"
    by blast
  from handleApproval_blank_comment [where approvalComment = "[]" and e = env0
      and approver = "''sec@pel.com''" and userRole = Secretary and requests = "[dash1]"
      and requestId = "''N_01012025_001''" and de = Reject and s = server1] b
  have f: "handleApproval env0 ''sec@pel.com'' Secretary [] [dash1] ''N_01012025_001'' Reject server1 =
     (Some (Toast ''Error'' ''Please add a comment for your decision''), server1)"
    by blast
  from c d f show ?thesis by simp
qed









section \<open>Submission from the request forms\<close>

lemma forms_filled: "no_empty_fields alpha_form" "no_empty_fields beta_form"
  by code_simp+

lemma titles:
  "plant_title edit_props edit_state = ''Plant Code: P100 - Beta''"
  "plant_title new_props new_state = ''Plant Code: P100 - Alpha''"
  "company_title new_props company_state = ''Company Code: 1000 - Premier''"
  by (simp_all add: plant_title_def company_title_def edit_props_def edit_state_def new_props_def
      new_state_def company_state_def field_def alpha_form_def beta_form_def)

lemma first_id: "generateRequestId None ''20250101'' no_counters =
    Some (''N_01012025_001'', no_counters((CHR ''N'', ''20250101'') \<mapsto> 1))"
proof -
  have p: "ncType_prefix None = Some (CHR ''N'')"
    by (simp add: ncType_prefix_def toUpperCase_def toUpperCase_char_def)
  have s: "padStart 3 (CHR ''0'') (String_int 1) = ''001''"
    by (simp add: padStart_def String_int_def String_nat_small digit_char_def numeral_2_eq_2)
  have d: "slice 6 8 ''20250101'' @ slice 4 6 ''20250101'' @ slice 0 4 ''20250101'' = ''01012025''"
    by (simp add: slice_def)
  show ?thesis
    by (simp add: generateRequestId_def merge_counter_def no_counters_def Let_def p s d)
qed

lemma plant_edit_saveRequest:
  "plant_saveRequest env0 edit_props edit_state server_rejected =
     (Inr (Some ''N_01012025_001''),
      server_rejected\<lparr>Requests := [request1\<lparr>r_title := ''Plant Code: P100 - Beta'',
                                            r_status := Pending_siva, r_updatedAt := 1000\<rparr>]\<rparr>)"
  by (simp add: plant_saveRequest_def titles)
     (simp add: edit_props_def baseId_def String_opt_def anyReq_createdAt_def falsy_def
      saveRequest_def http_def post_requests_def or_else_def ISNULL_def select_status_def
      upsert_request_def try_mail_def env0_def server_rejected_def server2_def server1_def
      request1_def)

lemma plant_edit_details:
  "savePlantCodeDetails env0
     \<lparr>db_requestId = Some ''N_01012025_001'', db_version = Some 2,
      db_entries = map (\<lambda>(k, v). (k, Some v)) beta_form\<rparr>
     (server_rejected\<lparr>Requests := [request1\<lparr>r_title := ''Plant Code: P100 - Beta'',
                                            r_status := Pending_siva, r_updatedAt := 1000\<rparr>]\<rparr>)
   = (Inr (),
      server_rejected\<lparr>Requests := [request1\<lparr>r_title := ''Plant Code: P100 - Beta'',
                                            r_status := Pending_siva, r_updatedAt := 1000\<rparr>],
                      PlantCodeDetails := [alpha_row, beta_row]\<rparr>)"
  by (simp add: savePlantCodeDetails_def http_def post_plant_details_def plant_details_upsert_def
      form_required beta_form_bound inserted_cols beta_form_cols falsy_def or_else_def Let_def
      has_version_def request_exists_def upsert_details_def try_mail_def env0_def
      server_rejected_def server2_def server1_def request1_def alpha_row_def beta_row_def)

text \<open>
  Claim C1 against the plant form. A resubmission of the rejected request is saved with
  status \<open>pending-siva\<close>, the second stage, and a new request is written with
  \<open>pending-siva\<close> as well; neither enters the chain at \<open>pending-secretary\<close>.
\<close>

theorem plant_submission_writes_pending_siva:
  "statuses server_rejected = [(''N_01012025_001'', Rejected)]
   \<and> PlantCodeForm_handleSubmit env0 edit_props edit_state [] server_rejected
       = (Saved, server_resubmitted)
   \<and> statuses server_resubmitted = [(''N_01012025_001'', Pending_siva)]
   \<and> statuses (snd (PlantCodeForm_handleSubmit env0 new_props new_state [] server_empty))
       = [(''N_01012025_001'', Pending_siva)]"
proof -
  have a: "statuses server_rejected = [(''N_01012025_001'', Rejected)]"
    by (simp add: statuses_def server_rejected_def server2_def server1_def request1_def)
  have b: "PlantCodeForm_handleSubmit env0 edit_props edit_state [] server_rejected
       = (Saved, server_resubmitted)"
    apply (simp add: PlantCodeForm_handleSubmit_def plant_edit_saveRequest)
    apply (simp add: edit_state_def edit_props_def forms_filled nextVersion_def falsy_def
        plant_edit_details)
    apply (simp add: saveHistoryLog_def http_def post_history_def or_else_def ISNULL_def falsy_def
        has_history_def request_exists_def env0_def server_rejected_def server_resubmitted_def
        server2_def server1_def request1_def)
    done
  have c: "statuses server_resubmitted = [(''N_01012025_001'', Pending_siva)]"
    by (simp add: statuses_def server_resubmitted_def server2_def server1_def request1_def)
  have n: "plant_saveRequest env0 new_props new_state server_empty =
     (Inr None,
      server_empty\<lparr>RequestIdCounters := no_counters((CHR ''N'', ''20250101'') \<mapsto> 1),
                   Requests := [\<lparr>r_requestId = ''N_01012025_001'', r_type = Plant,
                                 r_title = ''Plant Code: P100 - Alpha'', r_status = Pending_siva,
                                 r_createdBy = ''asha@pel.com'', r_createdAt = 1000,
                                 r_updatedAt = 1000\<rparr>]\<rparr>)"
    by (simp add: plant_saveRequest_def titles)
       (simp add: new_props_def saveRequest_def http_def post_requests_def falsy_def or_else_def
        ISNULL_def select_status_def upsert_request_def try_mail_def env0_def server_empty_def
        first_id)
  have d: "statuses (snd (PlantCodeForm_handleSubmit env0 new_props new_state [] server_empty))
       = [(''N_01012025_001'', Pending_siva)]"
    by (simp add: PlantCodeForm_handleSubmit_def n)
       (simp add: new_state_def new_props_def forms_filled falsy_def statuses_def server_empty_def)
  from a b c d show ?thesis by simp
qed

theorem plant_submission_writes_pending_siva_witness:
  "map snd (statuses server_resubmitted) \<noteq> [Pending_secretary]
   \<and> fst (PlantCodeForm_handleSubmit env0 edit_props edit_state [] server_rejected) = Saved"
proof -
  note t = plant_submission_writes_pending_siva
  from t have "statuses server_resubmitted = [(''N_01012025_001'', Pending_siva)]"
    by blast
  moreover from t have "PlantCodeForm_handleSubmit env0 edit_props edit_state [] server_rejected
       = (Saved, server_resubmitted)"
    by blast
  ultimately show ?thesis by simp
qed

text \<open>
  On the details table of the schema bootstrap, which has no \<open>gstNumber\<close> column, the
  same resubmission ends in the error toast, the details write being refused; the
  request row has been written before, with \<open>pending-siva\<close>.
\<close>

lemma plant_submission_on_bootstrap_table:
  "fst (PlantCodeForm_handleSubmit env0 edit_props edit_state [] server_rejected_bootstrap)
     = Save_failed"
  "statuses (snd (PlantCodeForm_handleSubmit env0 edit_props edit_state [] server_rejected_bootstrap))
     = [(''N_01012025_001'', Pending_siva)]"
proof -
  have s: "plant_saveRequest env0 edit_props edit_state server_rejected_bootstrap =
     (Inr (Some ''N_01012025_001''),
      server_rejected_bootstrap\<lparr>Requests := [request1\<lparr>r_title := ''Plant Code: P100 - Beta'',
                                            r_status := Pending_siva, r_updatedAt := 1000\<rparr>]\<rparr>)"
    by (simp add: plant_saveRequest_def titles)
       (simp add: edit_props_def baseId_def String_opt_def anyReq_createdAt_def falsy_def
        saveRequest_def http_def post_requests_def or_else_def ISNULL_def select_status_def
        upsert_request_def try_mail_def env0_def server_rejected_bootstrap_def server1_def
        request1_def)
  have c: "PlantCodeDetails_columns
             (server_rejected_bootstrap\<lparr>Requests := [request1\<lparr>r_title := ''Plant Code: P100 - Beta'',
                                            r_status := Pending_siva, r_updatedAt := 1000\<rparr>]\<rparr>)
           = DDL_plant_columns"
    by (simp add: server_rejected_bootstrap_def server1_def)
  have d: "savePlantCodeDetails env0
     \<lparr>db_requestId = Some ''N_01012025_001'', db_version = Some 2,
      db_entries = map (\<lambda>(k, v). (k, Some v)) beta_form\<rparr>
     (server_rejected_bootstrap\<lparr>Requests := [request1\<lparr>r_title := ''Plant Code: P100 - Beta'',
                                            r_status := Pending_siva, r_updatedAt := 1000\<rparr>]\<rparr>)
   = (Inl (Fail 500 ''Failed to save plant details''),
      server_rejected_bootstrap\<lparr>Requests := [request1\<lparr>r_title := ''Plant Code: P100 - Beta'',
                                            r_status := Pending_siva, r_updatedAt := 1000\<rparr>]\<rparr>)"
    by (simp add: savePlantCodeDetails_def http_def post_plant_details_def plant_details_upsert_def
      form_required beta_form_bound c table_columns falsy_def or_else_def Let_def)
  have h: "PlantCodeForm_handleSubmit env0 edit_props edit_state [] server_rejected_bootstrap
     = (Save_failed,
        server_rejected_bootstrap\<lparr>Requests := [request1\<lparr>r_title := ''Plant Code: P100 - Beta'',
                                            r_status := Pending_siva, r_updatedAt := 1000\<rparr>]\<rparr>)"
    apply (simp add: PlantCodeForm_handleSubmit_def s)
    apply (simp add: edit_state_def edit_props_def forms_filled nextVersion_def falsy_def d)
    done
  show "fst (PlantCodeForm_handleSubmit env0 edit_props edit_state [] server_rejected_bootstrap)
     = Save_failed"
    by (simp add: h)
  show "statuses (snd (PlantCodeForm_handleSubmit env0 edit_props edit_state [] server_rejected_bootstrap))
     = [(''N_01012025_001'', Pending_siva)]"
    by (simp add: h statuses_def request1_def)
qed

text \<open>The company form, on the same input, writes \<open>pending-secretary\<close>.\<close>

lemma company_submission_writes_pending_secretary:
  "statuses (snd (company_saveRequest env0 new_props company_state server_empty))
     = [(''N_01012025_001'', Pending_secretary)]"
  by (simp add: company_saveRequest_def titles)
     (simp add: new_props_def saveRequest_def http_def post_requests_def falsy_def or_else_def
      ISNULL_def select_status_def upsert_request_def try_mail_def env0_def server_empty_def
      first_id statuses_def)

section \<open>Side channels\<close>

text \<open>
  Claim C8 against \<open>addApproval\<close>. The history log already holds an entry of the request
  with the timestamp of the call. The approval row is written, the history entry is
  refused, and the error is thrown to \<open>handleApproval\<close>: the approver is told that the
  approval failed and the status is not advanced, although the decision is stored.
\<close>

theorem history_failure_fails_the_approval:
  "addApproval env0 ''N_01012025_001'' ''sec@pel.com'' Secretary Approve ''ok'' None server1_logged
     = (Inl (Fail 500 ''Failed to save history log''), server1_logged_recorded)
   \<and> handleApproval env0 ''sec@pel.com'' Secretary ''ok'' [dash1] ''N_01012025_001'' Approve
        server1_logged
     = (Some (Toast ''Error'' ''Failed to process approval''), server1_logged_recorded)
   \<and> map a_decision (Approvals server1_logged_recorded) = [Approve]
   \<and> statuses server1_logged_recorded = [(''N_01012025_001'', Pending_secretary)]"
proof -
  have a: "addApproval env0 ''N_01012025_001'' ''sec@pel.com'' Secretary Approve ''ok'' None server1_logged
     = (Inl (Fail 500 ''Failed to save history log''), server1_logged_recorded)"
    by (simp add: addApproval_def http_def post_approvals_def post_history_def server1_def
      server1_logged_def server1_logged_recorded_def env0_def request1_def falsy_def or_else_def
      or_null_def ISNULL_def has_approval_def has_history_def request_exists_def
      upsert_approval_def role_name_def decision_name_def Let_def)
  have b: "handleApproval env0 ''sec@pel.com'' Secretary ''ok'' [dash1] ''N_01012025_001'' Approve
        server1_logged
     = (Some (Toast ''Error'' ''Failed to process approval''), server1_logged_recorded)"
    by (simp add: handleApproval_def not_blank_ok a dash1_def)
  have c: "map a_decision (Approvals server1_logged_recorded) = [Approve]"
    by (simp add: server1_logged_recorded_def)
  have d: "statuses server1_logged_recorded = [(''N_01012025_001'', Pending_secretary)]"
    by (simp add: statuses_def server1_logged_recorded_def server1_logged_def server1_def request1_def)
  from a b c d show ?thesis by simp
qed

theorem history_failure_fails_the_approval_witness:
  "fst (handleApproval env0 ''sec@pel.com'' Secretary ''ok'' [dash1] ''N_01012025_001'' Approve
          server1_logged) = Some (Toast ''Error'' ''Failed to process approval'')
   \<and> map snd (statuses (snd (handleApproval env0 ''sec@pel.com'' Secretary ''ok'' [dash1]
          ''N_01012025_001'' Approve server1_logged))) = [Pending_secretary]"
proof -
  note t = history_failure_fails_the_approval
  from t have "handleApproval env0 ''sec@pel.com'' Secretary ''ok'' [dash1] ''N_01012025_001'' Approve
        server1_logged
     = (Some (Toast ''Error'' ''Failed to process approval''), server1_logged_recorded)"
    by blast
  moreover from t have "statuses server1_logged_recorded = [(''N_01012025_001'', Pending_secretary)]"
    by blast
  ultimately show ?thesis by simp
qed

text \<open>
  The other side channels are caught where they are called: a mail function that throws
  changes the console only, never the reply or the tables.
\<close>

lemma mail_failure_is_swallowed:
  "map_sum id Requests (patch_status (e\<lparr>mail_throws := True\<rparr>) rid st s)
     = map_sum id Requests (patch_status (e\<lparr>mail_throws := False\<rparr>) rid st s)"
  "map_sum id PlantCodeDetails (post_plant_details (e\<lparr>mail_throws := True\<rparr>) d s)
     = map_sum id PlantCodeDetails (post_plant_details (e\<lparr>mail_throws := False\<rparr>) d s)"
proof -
  show "map_sum id Requests (patch_status (e\<lparr>mail_throws := True\<rparr>) rid st s)
     = map_sum id Requests (patch_status (e\<lparr>mail_throws := False\<rparr>) rid st s)"
    by (auto simp: patch_status_def try_mail_def Let_def split: option.splits)
  show "map_sum id PlantCodeDetails (post_plant_details (e\<lparr>mail_throws := True\<rparr>) d s)
     = map_sum id PlantCodeDetails (post_plant_details (e\<lparr>mail_throws := False\<rparr>) d s)"
    by (cases "plant_details_upsert plant_columns d s")
       (simp_all add: post_plant_details_def try_mail_def)
qed

end
